theory Spec2Isabelle
  imports Main
begin

section \<open>Data model\<close>

text \<open>
  The entities are the Prisma models the services read and write. Identifiers are the
  opaque strings (cuid) the store generates. Surrogate row ids of permission rows and the
  \<^verbatim>\<open>createdAt\<close>/\<^verbatim>\<open>updatedAt\<close> timestamps (with their ISO conversion in the
  returned objects) carry no logic in the services and are left out. \<^verbatim>\<open>tokenVersion\<close>
  is a database integer that only the increments below change; it is modelled as an
  unbounded integer, the column's bound being out of reach of single increments.
\<close>

type_synonym id = string

record role =
  role_id :: id
  role_name :: string
  role_description :: "string option"

record feature =
  feature_id :: id
  feature_name :: string
  feature_description :: "string option"

record roleFeature =
  rf_roleId :: id
  rf_featureId :: id
  canCreate :: bool
  canRead :: bool
  canUpdate :: bool
  canDelete :: bool
  canPrint :: bool

record user =
  user_id :: id
  user_email :: string
  user_password :: string
  user_name :: "string option"
  isActive :: bool
  tokenVersion :: int
  user_roleId :: id

record refreshToken =
  rt_id :: id
  rt_userId :: id
  rt_expiresAt :: int
  revoked :: bool

record store =
  roles :: "role list"
  features :: "feature list"
  roleFeatures :: "roleFeature list"
  users :: "user list"
  refreshTokens :: "refreshToken list"

datatype prisma_code = P2002 | P2003 | P2025

datatype error =
    DeleteSystemError
  | InvalidFeatureIdError "id list"
  | CreateSystemError
  | UpdateSystemError
  | DeleteSelfError
  | PrismaError prisma_code
  | UnauthorizedError string
  | AccountDisabledError string
  | InvalidToken
  | TokenVersionMismatch

text \<open>
  A service call leaves the store in some state whether it returns or throws, so its
  outcome is the pair of its result and the store afterwards.
\<close>

type_synonym 'a outcome = "(error + 'a) \<times> store"

text \<open>
  \<^verbatim>\<open>prisma.$transaction(async (tx) => ...)\<close>: the body threads the store through
  its statements; when it throws, every write of the body is rolled back.
\<close>

definition transaction :: "(store \<Rightarrow> error + ('a \<times> store)) \<Rightarrow> store \<Rightarrow> 'a outcome" where
  "transaction body s =
     (case body s of
        Inl e \<Rightarrow> (Inl e, s)
      | Inr (v, s') \<Rightarrow> (Inr v, s'))"

section \<open>Store primitives\<close>

text \<open>
  Modelled from the spec: the Prisma schema (\<^verbatim>\<open>schema.prisma\<close>) is not among the
  sources, so the constraints the Prisma client calls of the services run against are
  taken from section 3 of the specification. Primary keys and the unique columns
  (\<^verbatim>\<open>Role.name\<close>, \<^verbatim>\<open>Feature.name\<close>, \<^verbatim>\<open>User.email\<close>, the pair
  \<^verbatim>\<open>(roleId, featureId)\<close> of a permission row) raise P2002 on a duplicate, a foreign
  key without target raises P2003, a missing record raises P2025; these are the three
  codes the error handlers of the routes map. An insert that violates both a unique key
  and a foreign key reports the unique key (P2002). The id of a new row is generated by
  the store and is passed in as \<open>nid\<close>.
\<close>

definition role_ids :: "store \<Rightarrow> id list" where
  "role_ids s = map role_id (roles s)"

definition feature_ids :: "store \<Rightarrow> id list" where
  "feature_ids s = map feature_id (features s)"

definition rf_key :: "roleFeature \<Rightarrow> id \<times> id" where
  "rf_key x = (rf_roleId x, rf_featureId x)"

definition role_findUnique :: "id \<Rightarrow> store \<Rightarrow> role option" where
  "role_findUnique i s = find (\<lambda>r. role_id r = i) (roles s)"

definition feature_findUnique :: "id \<Rightarrow> store \<Rightarrow> feature option" where
  "feature_findUnique i s = find (\<lambda>f. feature_id f = i) (features s)"

definition user_findUnique :: "id \<Rightarrow> store \<Rightarrow> user option" where
  "user_findUnique i s = find (\<lambda>u. user_id u = i) (users s)"

definition feature_create ::
  "id \<Rightarrow> string \<Rightarrow> string option \<Rightarrow> store \<Rightarrow> error + (feature \<times> store)" where
  "feature_create nid nm descr s =
     (if nid \<in> set (feature_ids s) \<or> nm \<in> set (map feature_name (features s))
      then Inl (PrismaError P2002)
      else let f = \<lparr>feature_id = nid, feature_name = nm, feature_description = descr\<rparr>
           in Inr (f, s\<lparr>features := features s @ [f]\<rparr>))"

definition role_create ::
  "id \<Rightarrow> string \<Rightarrow> string option \<Rightarrow> store \<Rightarrow> error + (role \<times> store)" where
  "role_create nid nm descr s =
     (if nid \<in> set (role_ids s) \<or> nm \<in> set (map role_name (roles s))
      then Inl (PrismaError P2002)
      else let r = \<lparr>role_id = nid, role_name = nm, role_description = descr\<rparr>
           in Inr (r, s\<lparr>roles := roles s @ [r]\<rparr>))"

definition roleFeature_createMany :: "roleFeature list \<Rightarrow> store \<Rightarrow> error + store" where
  "roleFeature_createMany rows s =
     (if \<not> distinct (map rf_key (roleFeatures s @ rows))
      then Inl (PrismaError P2002)
      else if \<not> list_all (\<lambda>x. rf_roleId x \<in> set (role_ids s) \<and>
                               rf_featureId x \<in> set (feature_ids s)) rows
      then Inl (PrismaError P2003)
      else Inr (s\<lparr>roleFeatures := roleFeatures s @ rows\<rparr>))"

definition roleFeature_deleteMany :: "id \<Rightarrow> store \<Rightarrow> store" where
  "roleFeature_deleteMany rid s =
     s\<lparr>roleFeatures := filter (\<lambda>x. rf_roleId x \<noteq> rid) (roleFeatures s)\<rparr>"

definition role_update ::
  "id \<Rightarrow> string option \<Rightarrow> string option option \<Rightarrow> store \<Rightarrow> error + (role \<times> store)" where
  "role_update i nm descr s =
     (case role_findUnique i s of
        None \<Rightarrow> Inl (PrismaError P2025)
      | Some r \<Rightarrow>
          let r' = r\<lparr>role_name := (case nm of None \<Rightarrow> role_name r | Some n \<Rightarrow> n),
                     role_description :=
                       (case descr of None \<Rightarrow> role_description r | Some d \<Rightarrow> d)\<rparr>
          in if list_ex (\<lambda>x. role_id x \<noteq> i \<and> role_name x = role_name r') (roles s)
             then Inl (PrismaError P2002)
             else Inr (r', s\<lparr>roles := map (\<lambda>x. if role_id x = i then r' else x) (roles s)\<rparr>))"

definition feature_update ::
  "id \<Rightarrow> string option \<Rightarrow> string option option \<Rightarrow> store \<Rightarrow> error + (feature \<times> store)" where
  "feature_update i nm descr s =
     (case feature_findUnique i s of
        None \<Rightarrow> Inl (PrismaError P2025)
      | Some f \<Rightarrow>
          let f' = f\<lparr>feature_name := (case nm of None \<Rightarrow> feature_name f | Some n \<Rightarrow> n),
                     feature_description :=
                       (case descr of None \<Rightarrow> feature_description f | Some d \<Rightarrow> d)\<rparr>
          in if list_ex (\<lambda>x. feature_id x \<noteq> i \<and> feature_name x = feature_name f') (features s)
             then Inl (PrismaError P2002)
             else Inr (f', s\<lparr>features :=
                                map (\<lambda>x. if feature_id x = i then f' else x) (features s)\<rparr>))"

text \<open>
  Modelled from the spec: the Prisma schema (the \<^verbatim>\<open>onDelete\<close> rules of the relations)
  is not among the sources. Section 3 of the specification: deleting a Role or Feature
  cascades deletion of its RoleFeature rows. The route's error handler and the
  integration tests add that a role still assigned to a user cannot be deleted (P2003 on
  \<^verbatim>\<open>User_roleId_fkey\<close>).
\<close>

definition feature_delete :: "id \<Rightarrow> store \<Rightarrow> error + (feature \<times> store)" where
  "feature_delete i s =
     (case feature_findUnique i s of
        None \<Rightarrow> Inl (PrismaError P2025)
      | Some f \<Rightarrow>
          Inr (f, s\<lparr>features := filter (\<lambda>x. feature_id x \<noteq> i) (features s),
                     roleFeatures := filter (\<lambda>x. rf_featureId x \<noteq> i) (roleFeatures s)\<rparr>))"

definition role_delete :: "id \<Rightarrow> store \<Rightarrow> error + (role \<times> store)" where
  "role_delete i s =
     (case role_findUnique i s of
        None \<Rightarrow> Inl (PrismaError P2025)
      | Some r \<Rightarrow>
          if list_ex (\<lambda>u. user_roleId u = i) (users s)
          then Inl (PrismaError P2003)
          else Inr (r, s\<lparr>roles := filter (\<lambda>x. role_id x \<noteq> i) (roles s),
                          roleFeatures := filter (\<lambda>x. rf_roleId x \<noteq> i) (roleFeatures s)\<rparr>))"

section \<open>RbacService\<close>

definition PROTECTED_FEATURES :: "string list" where
  "PROTECTED_FEATURES = [''RBAC_management'']"

definition PROTECTED_ROLES :: "string list" where
  "PROTECTED_ROLES = [''SuperAdmin'']"

text \<open>
  The action flags a caller supplies; each may be missing. A flag missing from the data
  of an insert takes the column default \<^verbatim>\<open>false\<close>, which is also what
  \<^verbatim>\<open>provided?.canCreate ?? false\<close> computes.
\<close>

record flagsInput =
  in_canCreate :: "bool option"
  in_canRead :: "bool option"
  in_canUpdate :: "bool option"
  in_canDelete :: "bool option"
  in_canPrint :: "bool option"

record permissionInput = flagsInput +
  in_featureId :: id

record createFeatureInput =
  cf_name :: string
  cf_description :: "string option"
  cf_defaultPermissions :: "flagsInput option"

record createRoleInput =
  cr_name :: string
  cr_description :: "string option"
  cr_permissions :: "permissionInput list option"

record updateRoleInput =
  ur_name :: "string option"
  ur_description :: "string option option"
  ur_permissions :: "permissionInput list option"

record updateFeatureInput =
  uf_name :: "string option"
  uf_description :: "string option option"

definition orFalse :: "bool option \<Rightarrow> bool" where
  "orFalse b = (case b of None \<Rightarrow> False | Some v \<Rightarrow> v)"

definition rowOfFlags :: "id \<Rightarrow> id \<Rightarrow> 'a flagsInput_scheme \<Rightarrow> roleFeature" where
  "rowOfFlags rid fid p =
     \<lparr>rf_roleId = rid, rf_featureId = fid,
      canCreate = orFalse (in_canCreate p), canRead = orFalse (in_canRead p),
      canUpdate = orFalse (in_canUpdate p), canDelete = orFalse (in_canDelete p),
      canPrint = orFalse (in_canPrint p)\<rparr>"

definition rowAll :: "id \<Rightarrow> id \<Rightarrow> bool \<Rightarrow> roleFeature" where
  "rowAll rid fid b =
     \<lparr>rf_roleId = rid, rf_featureId = fid, canCreate = b, canRead = b,
      canUpdate = b, canDelete = b, canPrint = b\<rparr>"

text \<open>
  \<^verbatim>\<open>role.name.toLowerCase().includes("admin")\<close>. Lower-casing maps the letters A to
  Z and leaves every other character alone; no character outside ASCII lower-cases to
  one of the letters of \<^verbatim>\<open>admin\<close>.
\<close>

definition toLowerChar :: "char \<Rightarrow> char" where
  "toLowerChar c =
     (case map_of (zip ''ABCDEFGHIJKLMNOPQRSTUVWXYZ'' ''abcdefghijklmnopqrstuvwxyz'') c of
        None \<Rightarrow> c
      | Some d \<Rightarrow> d)"

definition toLowerCase :: "string \<Rightarrow> string" where
  "toLowerCase s = map toLowerChar s"

fun includes_str :: "string \<Rightarrow> string \<Rightarrow> bool" where
  "includes_str [] sub = (sub = [])"
| "includes_str (c # cs) sub = (take (length sub) (c # cs) = sub \<or> includes_str cs sub)"

definition isAdmin :: "role \<Rightarrow> bool" where
  "isAdmin r = includes_str (toLowerCase (role_name r)) ''admin''"

definition defaultRowOf :: "feature \<Rightarrow> flagsInput \<Rightarrow> role \<Rightarrow> roleFeature" where
  "defaultRowOf newFeature defaultPermissions r =
     (if isAdmin r
      then rowAll (role_id r) (feature_id newFeature) True
      else rowOfFlags (role_id r) (feature_id newFeature) defaultPermissions)"

definition createFeature :: "id \<Rightarrow> createFeatureInput \<Rightarrow> store \<Rightarrow> feature outcome" where
  "createFeature nid data =
     transaction (\<lambda>s.
       case feature_create nid (cf_name data) (cf_description data) s of
         Inl e \<Rightarrow> Inl e
       | Inr (newFeature, s1) \<Rightarrow>
           (case cf_defaultPermissions data of
              None \<Rightarrow> Inr (newFeature, s1)
            | Some defaultPermissions \<Rightarrow>
                let allRoles = roles s1 in
                if length allRoles > 0
                then
                  let roleFeaturesData =
                        map (defaultRowOf newFeature defaultPermissions) allRoles
                  in (case roleFeature_createMany roleFeaturesData s1 of
                        Inl e \<Rightarrow> Inl e
                      | Inr s2 \<Rightarrow> Inr (newFeature, s2))
                else Inr (newFeature, s1)))"

definition updateFeature :: "id \<Rightarrow> updateFeatureInput \<Rightarrow> store \<Rightarrow> feature outcome" where
  "updateFeature i data s =
     (case feature_update i (uf_name data) (uf_description data) s of
        Inl e \<Rightarrow> (Inl e, s)
      | Inr (updatedFeature, s1) \<Rightarrow> (Inr updatedFeature, s1))"

definition deleteFeature :: "id \<Rightarrow> store \<Rightarrow> feature outcome" where
  "deleteFeature i s =
     (case feature_findUnique i s of
        None \<Rightarrow> (Inl (PrismaError P2025), s)
      | Some f \<Rightarrow>
          if feature_name f \<in> set PROTECTED_FEATURES
          then (Inl DeleteSystemError, s)
          else (case feature_delete i s of
                  Inl e \<Rightarrow> (Inl e, s)
                | Inr (deletedFeature, s1) \<Rightarrow> (Inr deletedFeature, s1)))"

definition providedPermsMap :: "permissionInput list \<Rightarrow> id \<Rightarrow> permissionInput option" where
  "providedPermsMap ps = map_of (rev (map (\<lambda>p. (in_featureId p, p)) ps))"

definition invalidFeatureIds :: "permissionInput list \<Rightarrow> store \<Rightarrow> id list" where
  "invalidFeatureIds permissions s =
     (let featureIds = map in_featureId permissions;
          existingFeatures = filter (\<lambda>f. feature_id f \<in> set featureIds) (features s);
          existingFeatureIds = set (map feature_id existingFeatures)
      in filter (\<lambda>i. i \<notin> existingFeatureIds) featureIds)"

definition roleFeatureOf :: "role \<Rightarrow> permissionInput list \<Rightarrow> feature \<Rightarrow> roleFeature" where
  "roleFeatureOf r permissions f =
     (case providedPermsMap permissions (feature_id f) of
        None \<Rightarrow> rowAll (role_id r) (feature_id f) False
      | Some provided \<Rightarrow> rowOfFlags (role_id r) (feature_id f) provided)"

definition createRole ::
  "id \<Rightarrow> createRoleInput \<Rightarrow> store \<Rightarrow> (role \<times> roleFeature list) outcome" where
  "createRole nid data =
     transaction (\<lambda>s.
       let permissions = (case cr_permissions data of None \<Rightarrow> [] | Some ps \<Rightarrow> ps)
       in if length permissions > 0 \<and> length (invalidFeatureIds permissions s) > 0
          then Inl (InvalidFeatureIdError (invalidFeatureIds permissions s))
          else
            (case role_create nid (cr_name data) (cr_description data) s of
               Inl e \<Rightarrow> Inl e
             | Inr (r, s1) \<Rightarrow>
                 let allFeatures = features s1;
                     roleFeaturesData = map (roleFeatureOf r permissions) allFeatures
                 in (case (if length roleFeaturesData > 0
                           then roleFeature_createMany roleFeaturesData s1
                           else Inr s1) of
                       Inl e \<Rightarrow> Inl e
                     | Inr s2 \<Rightarrow>
                         (case role_findUnique (role_id r) s2 of
                            None \<Rightarrow> Inl (PrismaError P2025)
                          | Some newRole \<Rightarrow>
                              Inr ((newRole,
                                    filter (\<lambda>x. rf_roleId x = role_id r) (roleFeatures s2)),
                                   s2)))))"

definition updateRole ::
  "id \<Rightarrow> updateRoleInput \<Rightarrow> store \<Rightarrow> (role \<times> roleFeature list) outcome" where
  "updateRole i data =
     transaction (\<lambda>s.
       case role_update i (ur_name data) (ur_description data) s of
         Inl e \<Rightarrow> Inl e
       | Inr (r, s1) \<Rightarrow>
           (case (case ur_permissions data of
                    None \<Rightarrow> Inr s1
                  | Some permissions \<Rightarrow>
                      let s2 = roleFeature_deleteMany i s1 in
                      if length permissions > 0
                      then roleFeature_createMany
                             (map (\<lambda>p. rowOfFlags i (in_featureId p) p) permissions) s2
                      else Inr s2) of
              Inl e \<Rightarrow> Inl e
            | Inr s3 \<Rightarrow>
                (case role_findUnique i s3 of
                   None \<Rightarrow> Inl (PrismaError P2025)
                 | Some updatedRole \<Rightarrow>
                     Inr ((updatedRole, filter (\<lambda>x. rf_roleId x = i) (roleFeatures s3)),
                          s3))))"

definition deleteRole :: "id \<Rightarrow> store \<Rightarrow> role outcome" where
  "deleteRole i s =
     (case role_findUnique i s of
        None \<Rightarrow> (Inl (PrismaError P2025), s)
      | Some r \<Rightarrow>
          if role_name r \<in> set PROTECTED_ROLES
          then (Inl DeleteSystemError, s)
          else (case role_delete i s of
                  Inl e \<Rightarrow> (Inl e, s)
                | Inr (deletedRole, s1) \<Rightarrow> (Inr deletedRole, s1)))"

section \<open>UserService\<close>

record createUserInput =
  cu_email :: string
  cu_password :: string
  cu_name :: "string option"
  cu_roleId :: id
  cu_isActive :: "bool option"

record updateUserInput =
  uu_email :: "string option"
  uu_password :: "string option"
  uu_name :: "string option option"
  uu_isActive :: "bool option"
  uu_roleId :: "id option"

definition user_create :: "id \<Rightarrow> createUserInput \<Rightarrow> store \<Rightarrow> error + (user \<times> store)" where
  "user_create nid data s =
     (if nid \<in> set (map user_id (users s)) \<or> cu_email data \<in> set (map user_email (users s))
      then Inl (PrismaError P2002)
      else if cu_roleId data \<notin> set (role_ids s)
      then Inl (PrismaError P2003)
      else let u = \<lparr>user_id = nid, user_email = cu_email data,
                      user_password = cu_password data, user_name = cu_name data,
                      isActive = (case cu_isActive data of None \<Rightarrow> True | Some b \<Rightarrow> b),
                      tokenVersion = 0, user_roleId = cu_roleId data\<rparr>
           in Inr (u, s\<lparr>users := users s @ [u]\<rparr>))"

definition user_update :: "id \<Rightarrow> updateUserInput \<Rightarrow> store \<Rightarrow> error + (user \<times> store)" where
  "user_update i data s =
     (case user_findUnique i s of
        None \<Rightarrow> Inl (PrismaError P2025)
      | Some u \<Rightarrow>
          let u' = u\<lparr>user_email := (case uu_email data of None \<Rightarrow> user_email u | Some e \<Rightarrow> e),
                     user_password :=
                       (case uu_password data of None \<Rightarrow> user_password u | Some p \<Rightarrow> p),
                     user_name := (case uu_name data of None \<Rightarrow> user_name u | Some n \<Rightarrow> n),
                     isActive := (case uu_isActive data of None \<Rightarrow> isActive u | Some b \<Rightarrow> b),
                     user_roleId :=
                       (case uu_roleId data of None \<Rightarrow> user_roleId u | Some r \<Rightarrow> r)\<rparr>
          in if list_ex (\<lambda>x. user_id x \<noteq> i \<and> user_email x = user_email u') (users s)
             then Inl (PrismaError P2002)
             else if user_roleId u' \<notin> set (role_ids s)
             then Inl (PrismaError P2003)
             else Inr (u', s\<lparr>users := map (\<lambda>x. if user_id x = i then u' else x) (users s)\<rparr>))"

text \<open>
  Modelled from the spec: the Prisma schema is not among the sources. Section 3 of the
  specification: a RefreshToken row is physically deleted only by cascading user
  deletion.
\<close>

definition user_delete :: "id \<Rightarrow> store \<Rightarrow> error + (user \<times> store)" where
  "user_delete i s =
     (case user_findUnique i s of
        None \<Rightarrow> Inl (PrismaError P2025)
      | Some u \<Rightarrow>
          Inr (u, s\<lparr>users := filter (\<lambda>x. user_id x \<noteq> i) (users s),
                     refreshTokens := filter (\<lambda>t. rt_userId t \<noteq> i) (refreshTokens s)\<rparr>))"

definition roleNameOf :: "id \<Rightarrow> store \<Rightarrow> string option" where
  "roleNameOf rid s = map_option role_name (role_findUnique rid s)"

text \<open>
  \<^verbatim>\<open>Bun.password.hash\<close> is an opaque one-way function, passed as \<open>hash\<close>. The
  services return the \<^verbatim>\<open>SAFE_USER_SELECT\<close> projection of the user; the model
  returns the row.
\<close>

definition createUser ::
  "(string \<Rightarrow> string) \<Rightarrow> id \<Rightarrow> createUserInput \<Rightarrow> store \<Rightarrow> user outcome" where
  "createUser hash nid data s =
     (if roleNameOf (cu_roleId data) s = Some ''SuperAdmin''
      then (Inl CreateSystemError, s)
      else
        let hashedPassword = hash (cu_password data) in
        (case user_create nid (data\<lparr>cu_password := hashedPassword\<rparr>) s of
           Inl e \<Rightarrow> (Inl e, s)
         | Inr (u, s1) \<Rightarrow> (Inr u, s1)))"

definition updateUser ::
  "(string \<Rightarrow> string) \<Rightarrow> id \<Rightarrow> updateUserInput \<Rightarrow> store \<Rightarrow> user outcome" where
  "updateUser hash i data s =
     (let updateData =
            (case uu_password data of
               None \<Rightarrow> data
             | Some p \<Rightarrow> if p \<noteq> [] then data\<lparr>uu_password := Some (hash p)\<rparr> else data)
      in if uu_isActive updateData = Some False \<and>
            (case user_findUnique i s of
               None \<Rightarrow> False
             | Some existingUser \<Rightarrow>
                 roleNameOf (user_roleId existingUser) s = Some ''SuperAdmin'')
         then (Inl UpdateSystemError, s)
         else (case user_update i updateData s of
                 Inl e \<Rightarrow> (Inl e, s)
               | Inr (u, s1) \<Rightarrow> (Inr u, s1)))"

definition deleteUser :: "id \<Rightarrow> id \<Rightarrow> store \<Rightarrow> user outcome" where
  "deleteUser targetId requestingUserId s =
     (if targetId = requestingUserId
      then (Inl DeleteSelfError, s)
      else
        (case user_findUnique targetId s of
           None \<Rightarrow> (Inl (PrismaError P2025), s)
         | Some targetUser \<Rightarrow>
             if (case roleNameOf (user_roleId targetUser) s of
                   None \<Rightarrow> False
                 | Some n \<Rightarrow> n \<in> set PROTECTED_ROLES)
             then (Inl DeleteSystemError, s)
             else (case user_delete targetId s of
                     Inl e \<Rightarrow> (Inl e, s)
                   | Inr (u, s1) \<Rightarrow> (Inr u, s1))))"

section \<open>Tokens and the request gate\<close>

text \<open>
  What \<^verbatim>\<open>jwt.verify\<close> hands back is untyped JSON; the routes test the claims with
  \<^verbatim>\<open>typeof\<close> and truthiness before using them. Numbers are the integers a token
  version can be; \<^verbatim>\<open>jti\<close> is the registered claim, a string when present.
\<close>

datatype jsval = JUndefined | JNull | JBool bool | JNum int | JStr string

record jwtPayload =
  p_sub :: jsval
  p_tv :: jsval
  p_jti :: "string option"

definition truthy :: "string option \<Rightarrow> bool" where
  "truthy v = (case v of None \<Rightarrow> False | Some x \<Rightarrow> x \<noteq> [])"

text \<open>\<^verbatim>\<open>a || b\<close> on two optional strings.\<close>

definition orElse :: "string option \<Rightarrow> string option \<Rightarrow> string option" where
  "orElse a b = (if truthy a then a else b)"

definition startsWith :: "string \<Rightarrow> string \<Rightarrow> bool" where
  "startsWith s pre = (take (length pre) s = pre)"

record authUser =
  au_id :: id
  au_tokenVersion :: int

text \<open>
  \<^verbatim>\<open>authMiddleware\<close>: the derive step every protected route runs first. \<open>verify\<close> is
  \<^verbatim>\<open>accessJwt.verify\<close> at the time of the request: the claims of a token whose
  signature and expiry are good, \<^verbatim>\<open>false\<close> otherwise.
\<close>

definition authMiddleware ::
  "(string \<Rightarrow> jwtPayload option) \<Rightarrow> string option \<Rightarrow> store \<Rightarrow> error + authUser" where
  "authMiddleware verify authorization s =
     (case authorization of
        None \<Rightarrow> Inl (UnauthorizedError ''Missing or invalid Authorization header'')
      | Some auth \<Rightarrow>
          if \<not> startsWith auth ''Bearer ''
          then Inl (UnauthorizedError ''Missing or invalid Authorization header'')
          else
            (case verify (drop 7 auth) of
               None \<Rightarrow> Inl (UnauthorizedError ''Invalid or expired token'')
             | Some payload \<Rightarrow>
                 (case (p_sub payload, p_tv payload) of
                    (JStr sub, JNum tv) \<Rightarrow>
                      (case user_findUnique sub s of
                         None \<Rightarrow> Inl (UnauthorizedError ''User no longer exists'')
                       | Some u \<Rightarrow>
                           if \<not> isActive u
                           then Inl (AccountDisabledError ''Your account has been disabled.'')
                           else if tokenVersion u \<noteq> tv
                           then Inl (UnauthorizedError ''Session expired, please login again'')
                           else Inr \<lparr>au_id = sub, au_tokenVersion = tv\<rparr>)
                  | _ \<Rightarrow> Inl (UnauthorizedError ''Invalid or expired token''))))"

text \<open>
  Modelled from the spec: the application-wide error handler (\<^verbatim>\<open>server.ts\<close>) is not
  among the sources. Section 6 of the specification puts token and identity failures in
  the 401 class and a disabled account in the 403 class; for the two exception classes
  of \<^verbatim>\<open>libs/exceptions\<close> this is what the \<^verbatim>\<open>onError\<close> hook of
  \<^verbatim>\<open>createProtectedApp\<close> does.
\<close>

definition statusOfError :: "error \<Rightarrow> nat" where
  "statusOfError e =
     (case e of
        UnauthorizedError _ \<Rightarrow> 401
      | AccountDisabledError _ \<Rightarrow> 403
      | InvalidToken \<Rightarrow> 401
      | TokenVersionMismatch \<Rightarrow> 401
      | _ \<Rightarrow> 500)"

text \<open>
  Modelled from the spec: the jwt plugin is an external library. Section 6 of the
  specification: \<^verbatim>\<open>verify(kind, token)\<close> yields the claims or fails; each kind has
  its own secret and expiry; section 5: expiry is the embedded expiry compared against the
  current time. \<open>decode\<close> parses a token string (\<open>None\<close> for a malformed one).
\<close>

record signedToken =
  tk_secret :: string
  tk_exp :: int
  tk_payload :: jwtPayload

definition jwt_verify ::
  "string \<Rightarrow> int \<Rightarrow> (string \<Rightarrow> signedToken option) \<Rightarrow> string \<Rightarrow> jwtPayload option" where
  "jwt_verify secret now decode tok =
     (case decode tok of
        None \<Rightarrow> None
      | Some t \<Rightarrow>
          if tk_secret t \<noteq> secret then None
          else if tk_exp t \<le> now then None
          else Some (tk_payload t))"

section \<open>AuthService\<close>

text \<open>
  Modelled from the spec: \<^verbatim>\<open>modules/auth/service.ts\<close> (AuthService) is not among the
  sources; only its callers (the routes) and its tests are. The store updates below are
  the ones section 4.1 of the specification names: look a RefreshToken row up by the
  \<^verbatim>\<open>jti\<close>, increment a user's tokenVersion, mark one row revoked, mark every
  unrevoked row of a user revoked, insert a new row.
\<close>

definition refreshToken_findUnique :: "id \<Rightarrow> store \<Rightarrow> refreshToken option" where
  "refreshToken_findUnique jti s = find (\<lambda>t. rt_id t = jti) (refreshTokens s)"

definition incrementTokenVersion :: "id \<Rightarrow> store \<Rightarrow> store" where
  "incrementTokenVersion uid s =
     s\<lparr>users := map (\<lambda>u. if user_id u = uid then u\<lparr>tokenVersion := tokenVersion u + 1\<rparr> else u)
                     (users s)\<rparr>"

definition revokeToken :: "id \<Rightarrow> store \<Rightarrow> store" where
  "revokeToken jti s =
     s\<lparr>refreshTokens := map (\<lambda>t. if rt_id t = jti then t\<lparr>revoked := True\<rparr> else t)
                             (refreshTokens s)\<rparr>"

definition revokeAllOfUser :: "id \<Rightarrow> store \<Rightarrow> store" where
  "revokeAllOfUser uid s =
     s\<lparr>refreshTokens :=
          map (\<lambda>t. if rt_userId t = uid \<and> \<not> revoked t then t\<lparr>revoked := True\<rparr> else t)
              (refreshTokens s)\<rparr>"

definition refreshToken_create :: "id \<Rightarrow> id \<Rightarrow> int \<Rightarrow> store \<Rightarrow> error + store" where
  "refreshToken_create nid uid expires s =
     (if nid \<in> set (map rt_id (refreshTokens s))
      then Inl (PrismaError P2002)
      else if uid \<notin> set (map user_id (users s))
      then Inl (PrismaError P2003)
      else Inr (s\<lparr>refreshTokens := refreshTokens s @
                    [\<lparr>rt_id = nid, rt_userId = uid, rt_expiresAt = expires, revoked = False\<rparr>]\<rparr>))"

record refreshResult =
  rr_user :: user
  rr_refreshToken :: id
  rr_tokenVersion :: int

text \<open>
  Modelled from the spec: \<^verbatim>\<open>AuthService.refresh\<close> is not among the sources. Section
  4.1, steps 2 to 6: no row for the \<^verbatim>\<open>jti\<close> fails with InvalidToken; a revoked row
  fails with InvalidToken and increments the owning user's tokenVersion; an inactive
  owner fails with AccountDisabled; a \<^verbatim>\<open>tv\<close> that differs from the owner's
  tokenVersion fails with TokenVersionMismatch; otherwise one transaction revokes the
  row and inserts a new one. Step 1 (signature and expiry) is done by the route before
  the service is called. \<open>newId\<close> is the id the store gives the new row, \<open>now\<close> the
  current time and \<open>lifetime\<close> the refresh lifetime.
\<close>

definition refresh ::
  "id \<Rightarrow> int \<Rightarrow> int \<Rightarrow> id \<Rightarrow> id \<Rightarrow> int \<Rightarrow> store \<Rightarrow> refreshResult outcome" where
  "refresh newId now lifetime jti userId tv s =
     (case refreshToken_findUnique jti s of
        None \<Rightarrow> (Inl InvalidToken, s)
      | Some row \<Rightarrow>
          if revoked row
          then (Inl InvalidToken, incrementTokenVersion (rt_userId row) s)
          else
            (case user_findUnique (rt_userId row) s of
               None \<Rightarrow> (Inl InvalidToken, s)
             | Some u \<Rightarrow>
                 if \<not> isActive u then (Inl (AccountDisabledError ''Account disabled''), s)
                 else if tv \<noteq> tokenVersion u then (Inl TokenVersionMismatch, s)
                 else
                   transaction (\<lambda>s0.
                     case refreshToken_create newId (user_id u) (now + lifetime)
                            (revokeToken jti s0) of
                       Inl e \<Rightarrow> Inl e
                     | Inr s1 \<Rightarrow>
                         Inr (\<lparr>rr_user = u, rr_refreshToken = newId,
                               rr_tokenVersion = tokenVersion u\<rparr>, s1)) s))"

text \<open>
  Modelled from the spec: \<^verbatim>\<open>AuthService.logout\<close> is not among the sources. Section
  4.1: if a matching row exists it is marked revoked; any failure to find or revoke is
  swallowed, and logout always reports success.
\<close>

definition logout :: "id \<Rightarrow> id \<Rightarrow> store \<Rightarrow> unit outcome" where
  "logout jti userId s =
     (case refreshToken_findUnique jti s of
        None \<Rightarrow> (Inr (), s)
      | Some row \<Rightarrow> (Inr (), revokeToken jti s))"

text \<open>
  Modelled from the spec: \<^verbatim>\<open>AuthService.logoutAll\<close> is not among the sources. Section
  4.1, steps 1 to 5: an initiating token without row, or with a revoked row, fails with
  Unauthorized; an inactive user fails with AccountDisabled; a stale version fails with
  TokenVersionMismatch; otherwise one transaction revokes every unrevoked row of the
  user and increments the user's tokenVersion once.
\<close>

definition logoutAll :: "id \<Rightarrow> id \<Rightarrow> int \<Rightarrow> store \<Rightarrow> unit outcome" where
  "logoutAll userId requestingTokenId tv s =
     (case refreshToken_findUnique requestingTokenId s of
        None \<Rightarrow> (Inl (UnauthorizedError ''Unauthorized''), s)
      | Some row \<Rightarrow>
          if revoked row then (Inl (UnauthorizedError ''Unauthorized''), s)
          else
            (case user_findUnique userId s of
               None \<Rightarrow> (Inl (UnauthorizedError ''Unauthorized''), s)
             | Some u \<Rightarrow>
                 if \<not> isActive u then (Inl (AccountDisabledError ''Account disabled''), s)
                 else if tv \<noteq> tokenVersion u then (Inl TokenVersionMismatch, s)
                 else
                   transaction (\<lambda>s0.
                     Inr ((), incrementTokenVersion userId (revokeAllOfUser userId s0))) s))"




section \<open>Auth routes\<close>

record 'a response =
  resp_error :: bool
  resp_code :: nat
  resp_message :: string
  resp_data :: "'a option"
  resp_cookie :: "string option"

definition errorResponse :: "nat \<Rightarrow> string \<Rightarrow> 'a response" where
  "errorResponse code message =
     \<lparr>resp_error = True, resp_code = code, resp_message = message, resp_data = None,
      resp_cookie = None\<rparr>"

definition successResponse :: "'a option \<Rightarrow> string \<Rightarrow> nat \<Rightarrow> 'a response" where
  "successResponse data message code =
     \<lparr>resp_error = False, resp_code = code, resp_message = message, resp_data = data,
      resp_cookie = None\<rparr>"

record refreshData =
  access_token :: string
  refresh_token :: string
  rd_user :: user

text \<open>
  A route either returns a response or lets an exception of the service escape to the
  error handler; \<open>statusOfError\<close> is the status the client then sees.
\<close>

type_synonym 'a routed = "(error + 'a response) \<times> store"

definition routeStatus :: "'a routed \<Rightarrow> nat" where
  "routeStatus r = (case fst r of Inl e \<Rightarrow> statusOfError e | Inr resp \<Rightarrow> resp_code resp)"

text \<open>
  \<^verbatim>\<open>POST /auth/refresh\<close>. \<open>verify\<close> is \<^verbatim>\<open>refreshJwt.verify\<close> at the time of
  the request, \<open>signAccess\<close> and \<open>signRefresh\<close> the two \<^verbatim>\<open>sign\<close> functions.
\<close>

definition refreshRoute ::
  "(string \<Rightarrow> jwtPayload option) \<Rightarrow> (jwtPayload \<Rightarrow> string) \<Rightarrow> (jwtPayload \<Rightarrow> string) \<Rightarrow>
   id \<Rightarrow> int \<Rightarrow> int \<Rightarrow> string option \<Rightarrow> string option \<Rightarrow> store \<Rightarrow> refreshData routed" where
  "refreshRoute verify signAccess signRefresh newId now lifetime cookieToken bodyToken s =
     (case orElse cookieToken bodyToken of
        None \<Rightarrow> (Inr (errorResponse 400 ''Refresh token is missing''), s)
      | Some incomingRefreshToken \<Rightarrow>
          if incomingRefreshToken = []
          then (Inr (errorResponse 400 ''Refresh token is missing''), s)
          else
            (case verify incomingRefreshToken of
               None \<Rightarrow> (Inr (errorResponse 401 ''Unauthorized''), s)
             | Some payload \<Rightarrow>
                 (case (p_jti payload, p_sub payload, p_tv payload) of
                    (Some jti, JStr sub, JNum tv) \<Rightarrow>
                      if jti = []
                      then (Inr (errorResponse 401 ''Unauthorized''), s)
                      else
                        (case refresh newId now lifetime jti sub tv s of
                           (Inl e, s1) \<Rightarrow> (Inl e, s1)
                         | (Inr data, s1) \<Rightarrow>
                             let newAccessToken =
                                   signAccess \<lparr>p_sub = JStr (user_id (rr_user data)),
                                               p_tv = JNum (rr_tokenVersion data),
                                               p_jti = None\<rparr>;
                                 newRefreshToken =
                                   signRefresh \<lparr>p_sub = JStr (user_id (rr_user data)),
                                                p_tv = JNum (rr_tokenVersion data),
                                                p_jti = Some (rr_refreshToken data)\<rparr>
                             in (Inr ((successResponse
                                         (Some \<lparr>access_token = newAccessToken,
                                                refresh_token = newRefreshToken,
                                                rd_user = rr_user data\<rparr>)
                                         ''Token refreshed successfully'' 200)
                                       \<lparr>resp_cookie := Some newRefreshToken\<rparr>), s1))
                  | _ \<Rightarrow> (Inr (errorResponse 401 ''Unauthorized''), s))))"

text \<open>
  The body of a request as the routes of \<^verbatim>\<open>POST /auth/logout\<close> see it: either it was
  not parsed as JSON (\<open>Unparsed\<close>, a request sent without a \<^verbatim>\<open>content-type\<close> header),
  or it is a JSON object whose \<^verbatim>\<open>refresh_token\<close> field is absent, \<^verbatim>\<open>null\<close> or a
  string.
\<close>

datatype tokenField = FieldAbsent | FieldNull | FieldString string

datatype requestBody = Unparsed | JsonBody tokenField

text \<open>
  Modelled from the spec: \<^verbatim>\<open>TokenSchema\<close> (\<^verbatim>\<open>modules/auth/schema.ts\<close>) is not among
  the sources, and the specification leaves request-body validation to an external
  collaborator (section 1). What the schema accepts is taken from the integration tests
  of the routes that declare \<^verbatim>\<open>body: TokenSchema\<close>: a string, the empty string
  included, is accepted (\<^verbatim>\<open>/logout\<close> answers 200), an absent field is accepted
  (\<^verbatim>\<open>/logout/all\<close> with the body \<^verbatim>\<open>{}\<close> and the token in the cookie answers 200),
  \<^verbatim>\<open>refresh_token: null\<close> is refused and so is a body sent without a
  \<^verbatim>\<open>content-type\<close> header (\<^verbatim>\<open>/logout\<close> answers 400 for both).
\<close>

definition TokenSchema :: "requestBody \<Rightarrow> bool" where
  "TokenSchema body =
     (case body of
        Unparsed \<Rightarrow> False
      | JsonBody FieldNull \<Rightarrow> False
      | JsonBody _ \<Rightarrow> True)"

definition body_refresh_token :: "requestBody \<Rightarrow> string option" where
  "body_refresh_token body =
     (case body of JsonBody (FieldString t) \<Rightarrow> Some t | _ \<Rightarrow> None)"

text \<open>
  \<^verbatim>\<open>POST /auth/logout\<close>. The route declares \<^verbatim>\<open>body: TokenSchema\<close>: a body that
  fails the schema never reaches the handler, and the \<^verbatim>\<open>onError\<close> hook of
  \<^verbatim>\<open>createBaseApp\<close> answers it with \<^verbatim>\<open>errorResponse(set, 400, "Validation Error", issues)\<close>.
\<close>

definition logoutRoute ::
  "(string \<Rightarrow> jwtPayload option) \<Rightarrow> string option \<Rightarrow> requestBody \<Rightarrow> store \<Rightarrow> unit routed" where
  "logoutRoute verify cookieToken body s =
     (if \<not> TokenSchema body
      then (Inr (errorResponse 400 ''Validation Error''), s)
      else
        let loggedOut = Inr ((successResponse None ''Logged out successfully'' 200)
                               \<lparr>resp_cookie := Some []\<rparr>)
        in case orElse cookieToken (body_refresh_token body) of
             None \<Rightarrow> (loggedOut, s)
           | Some incomingRefreshToken \<Rightarrow>
               if incomingRefreshToken = [] then (loggedOut, s)
               else
                 (case verify incomingRefreshToken of
                    None \<Rightarrow> (loggedOut, s)
                  | Some payload \<Rightarrow>
                      (case (p_jti payload, p_sub payload) of
                         (Some jti, JStr sub) \<Rightarrow>
                           if jti = [] then (loggedOut, s)
                           else (case logout jti sub s of
                                   (Inl e, s1) \<Rightarrow> (Inl e, s1)
                                 | (Inr _, s1) \<Rightarrow> (loggedOut, s1))
                       | _ \<Rightarrow> (loggedOut, s))))"

section \<open>The permission coverage invariant\<close>

definition rows_for :: "id \<Rightarrow> id \<Rightarrow> store \<Rightarrow> roleFeature list" where
  "rows_for rid fid s =
     filter (\<lambda>x. rf_roleId x = rid \<and> rf_featureId x = fid) (roleFeatures s)"

text \<open>Every existing role and every existing feature have exactly one permission row.\<close>

definition coverage :: "store \<Rightarrow> bool" where
  "coverage s =
     list_all (\<lambda>r. list_all (\<lambda>f. length (rows_for (role_id r) (feature_id f) s) = 1)
                      (features s)) (roles s)"

text \<open>No permission row refers to a role or a feature that does not exist.\<close>

definition no_orphans :: "store \<Rightarrow> bool" where
  "no_orphans s =
     list_all (\<lambda>x. rf_roleId x \<in> set (role_ids s) \<and> rf_featureId x \<in> set (feature_ids s))
       (roleFeatures s)"

definition permission_invariant :: "store \<Rightarrow> bool" where
  "permission_invariant s = (coverage s \<and> no_orphans s)"

section \<open>A small store\<close>

definition exampleStore :: store where
  "exampleStore =
     \<lparr>roles =
        [\<lparr>role_id = ''r1'', role_name = ''SuperAdmin'', role_description = Some ''Root''\<rparr>,
         \<lparr>role_id = ''r2'', role_name = ''Admin'', role_description = None\<rparr>,
         \<lparr>role_id = ''r3'', role_name = ''Clerk'', role_description = None\<rparr>],
      features =
        [\<lparr>feature_id = ''f1'', feature_name = ''RBAC_management'', feature_description = None\<rparr>,
         \<lparr>feature_id = ''f2'', feature_name = ''user_management'', feature_description = None\<rparr>],
      roleFeatures =
        [rowAll ''r1'' ''f1'' True, rowAll ''r1'' ''f2'' True,
         rowAll ''r2'' ''f1'' True, rowAll ''r2'' ''f2'' True,
         rowAll ''r3'' ''f1'' False,
         (rowAll ''r3'' ''f2'' False)\<lparr>canRead := True\<rparr>],
      users =
        [\<lparr>user_id = ''u1'', user_email = ''root@example.com'', user_password = ''h1'',
          user_name = None, isActive = True, tokenVersion = 0, user_roleId = ''r1''\<rparr>,
         \<lparr>user_id = ''u2'', user_email = ''clerk@example.com'', user_password = ''h2'',
          user_name = Some ''Clerk One'', isActive = True, tokenVersion = 3,
          user_roleId = ''r3''\<rparr>,
         \<lparr>user_id = ''u3'', user_email = ''gone@example.com'', user_password = ''h3'',
          user_name = None, isActive = False, tokenVersion = 5, user_roleId = ''r3''\<rparr>],
      refreshTokens =
        [\<lparr>rt_id = ''t0'', rt_userId = ''u2'', rt_expiresAt = 1000, revoked = True\<rparr>,
         \<lparr>rt_id = ''t1'', rt_userId = ''u2'', rt_expiresAt = 2000, revoked = False\<rparr>,
         \<lparr>rt_id = ''t2'', rt_userId = ''u2'', rt_expiresAt = 2000, revoked = False\<rparr>,
         \<lparr>rt_id = ''t3'', rt_userId = ''u1'', rt_expiresAt = 2000, revoked = False\<rparr>]\<rparr>"

definition exampleRoleInput :: createRoleInput where
  "exampleRoleInput =
     \<lparr>cr_name = ''Manager'', cr_description = None,
      cr_permissions = Some [\<lparr>in_canCreate = None, in_canRead = Some True, in_canUpdate = None,
                              in_canDelete = None, in_canPrint = None, in_featureId = ''f2''\<rparr>]\<rparr>"

definition exampleFeatureInput :: createFeatureInput where
  "exampleFeatureInput =
     \<lparr>cf_name = ''billing'', cf_description = None,
      cf_defaultPermissions =
        Some \<lparr>in_canCreate = None, in_canRead = Some True, in_canUpdate = None,
              in_canDelete = None, in_canPrint = None\<rparr>\<rparr>"

definition fullRoleUpdate :: updateRoleInput where
  "fullRoleUpdate =
     \<lparr>ur_name = Some ''Senior Clerk'', ur_description = None,
      ur_permissions =
        Some [\<lparr>in_canCreate = None, in_canRead = Some True, in_canUpdate = None,
               in_canDelete = None, in_canPrint = None, in_featureId = ''f1''\<rparr>,
              \<lparr>in_canCreate = Some True, in_canRead = Some True, in_canUpdate = None,
               in_canDelete = None, in_canPrint = None, in_featureId = ''f2''\<rparr>]\<rparr>"

definition partialRoleUpdate :: updateRoleInput where
  "partialRoleUpdate =
     \<lparr>ur_name = None, ur_description = None,
      ur_permissions =
        Some [\<lparr>in_canCreate = None, in_canRead = Some True, in_canUpdate = None,
               in_canDelete = None, in_canPrint = None, in_featureId = ''f2''\<rparr>]\<rparr>"

definition featureWithoutDefaults :: createFeatureInput where
  "featureWithoutDefaults =
     \<lparr>cf_name = ''reports'', cf_description = None, cf_defaultPermissions = None\<rparr>"

definition exampleFeatureUpdate :: updateFeatureInput where
  "exampleFeatureUpdate = \<lparr>uf_name = Some ''users'', uf_description = None\<rparr>"

definition promoteToSuperAdmin :: updateUserInput where
  "promoteToSuperAdmin =
     \<lparr>uu_email = None, uu_password = None, uu_name = None, uu_isActive = None,
      uu_roleId = Some ''r1''\<rparr>"

definition demoteToClerk :: updateUserInput where
  "demoteToClerk =
     \<lparr>uu_email = None, uu_password = None, uu_name = None, uu_isActive = None,
      uu_roleId = Some ''r3''\<rparr>"

definition deactivate :: updateUserInput where
  "deactivate =
     \<lparr>uu_email = None, uu_password = None, uu_name = None, uu_isActive = Some False,
      uu_roleId = None\<rparr>"

text \<open>
  Refresh tokens in circulation for the small store: \<^verbatim>\<open>tok0\<close> belongs to the revoked
  row \<^verbatim>\<open>t0\<close> and expires at time 1000, \<^verbatim>\<open>tok1\<close> to the live row \<^verbatim>\<open>t1\<close>; \<^verbatim>\<open>forged\<close> is
  signed with another secret; \<^verbatim>\<open>access2\<close> and \<^verbatim>\<open>access3\<close> are access tokens;
  every other string is malformed.
\<close>

definition exampleDecode :: "string \<Rightarrow> signedToken option" where
  "exampleDecode tok =
     (if tok = ''tok0''
      then Some \<lparr>tk_secret = ''refresh-secret'', tk_exp = 1000,
                 tk_payload = \<lparr>p_sub = JStr ''u2'', p_tv = JNum 3, p_jti = Some ''t0''\<rparr>\<rparr>
      else if tok = ''tok1''
      then Some \<lparr>tk_secret = ''refresh-secret'', tk_exp = 2000,
                 tk_payload = \<lparr>p_sub = JStr ''u2'', p_tv = JNum 3, p_jti = Some ''t1''\<rparr>\<rparr>
      else if tok = ''stale1''
      then Some \<lparr>tk_secret = ''refresh-secret'', tk_exp = 2000,
                 tk_payload = \<lparr>p_sub = JStr ''u2'', p_tv = JNum 2, p_jti = Some ''t2''\<rparr>\<rparr>
      else if tok = ''forged''
      then Some \<lparr>tk_secret = ''other-secret'', tk_exp = 2000,
                 tk_payload = \<lparr>p_sub = JStr ''u2'', p_tv = JNum 3, p_jti = Some ''t1''\<rparr>\<rparr>
      else if tok = ''access2''
      then Some \<lparr>tk_secret = ''access-secret'', tk_exp = 900,
                 tk_payload = \<lparr>p_sub = JStr ''u2'', p_tv = JNum 3, p_jti = None\<rparr>\<rparr>
      else if tok = ''access3''
      then Some \<lparr>tk_secret = ''access-secret'', tk_exp = 900,
                 tk_payload = \<lparr>p_sub = JStr ''u3'', p_tv = JNum 4, p_jti = None\<rparr>\<rparr>
      else None)"

definition exampleVerify :: "int \<Rightarrow> string \<Rightarrow> jwtPayload option" where
  "exampleVerify now = jwt_verify ''refresh-secret'' now exampleDecode"

definition exampleAccessVerify :: "int \<Rightarrow> string \<Rightarrow> jwtPayload option" where
  "exampleAccessVerify now = jwt_verify ''access-secret'' now exampleDecode"

definition exampleSign :: "jwtPayload \<Rightarrow> string" where
  "exampleSign p = ''signed''"

section \<open>Auxiliary facts\<close>

lemma filter_key_unique:
  "distinct (map k zs) \<Longrightarrow> z \<in> set zs \<Longrightarrow> filter (\<lambda>x. k x = k z) zs = [z]"
proof (induction zs)
  case Nil
  then show ?case by simp
next
  case (Cons a zs)
  show ?case
  proof (cases "a = z")
    case True
    with Cons.prems have "\<forall>x\<in>set zs. k x \<noteq> k z" by (auto simp: image_iff)
    then have "filter (\<lambda>x. k x = k z) zs = []" by (simp add: filter_empty_conv)
    with True show ?thesis by simp
  next
    case False
    with Cons.prems have z: "z \<in> set zs" by simp
    with Cons.prems have "k a \<noteq> k z" by (auto simp: image_iff)
    with Cons z show ?thesis by simp
  qed
qed




lemma transaction_Inl:
  "transaction body s = (Inl e, s') \<Longrightarrow> s' = s \<and> body s = Inl e"
  by (auto simp: transaction_def split: sum.splits)

lemma transaction_Inr:
  "transaction body s = (Inr v, s') \<Longrightarrow> body s = Inr (v, s')"
  by (auto simp: transaction_def split: sum.splits)

lemma role_create_Inr:
  "role_create nid nm d s = Inr (r, s1) \<Longrightarrow>
     r = \<lparr>role_id = nid, role_name = nm, role_description = d\<rparr> \<and>
     s1 = s\<lparr>roles := roles s @ [r]\<rparr> \<and> nid \<notin> set (role_ids s)"
  by (auto simp: role_create_def Let_def split: if_splits)

lemma createMany_Inr:
  "roleFeature_createMany rows s = Inr s2 \<Longrightarrow>
     s2 = s\<lparr>roleFeatures := roleFeatures s @ rows\<rparr> \<and>
     distinct (map rf_key (roleFeatures s @ rows)) \<and>
     list_all (\<lambda>x. rf_roleId x \<in> set (role_ids s) \<and> rf_featureId x \<in> set (feature_ids s)) rows"
  unfolding roleFeature_createMany_def by (simp split: if_splits)

lemma roleFeature_createMany_eq:
  "roleFeature_createMany rows s =
     (if list_all (\<lambda>x. rf_roleId x \<in> set (role_ids s) \<and>
                        rf_featureId x \<in> set (feature_ids s)) rows
      then if distinct (map rf_key (roleFeatures s @ rows))
           then Inr (s\<lparr>roleFeatures := roleFeatures s @ rows\<rparr>)
           else Inl (PrismaError P2002)
      else if distinct (map rf_key (roleFeatures s @ rows))
           then Inl (PrismaError P2003)
           else Inl (PrismaError P2002))"
  unfolding roleFeature_createMany_def by simp

lemma invalidFeatureIds_eq:
  "invalidFeatureIds ps s = filter (\<lambda>i. i \<notin> set (feature_ids s)) (map in_featureId ps)"
  unfolding invalidFeatureIds_def Let_def
  by (rule filter_cong) (force simp: feature_ids_def image_iff)+

lemmas eval_defs =
  transaction_def role_ids_def feature_ids_def rf_key_def role_findUnique_def
  feature_findUnique_def user_findUnique_def feature_create_def role_create_def
  roleFeature_createMany_eq roleFeature_deleteMany_def role_update_def feature_update_def
  feature_delete_def role_delete_def PROTECTED_FEATURES_def PROTECTED_ROLES_def
  orFalse_def rowOfFlags_def rowAll_def toLowerChar_def toLowerCase_def isAdmin_def
  defaultRowOf_def createFeature_def updateFeature_def deleteFeature_def
  providedPermsMap_def invalidFeatureIds_eq roleFeatureOf_def createRole_def
  updateRole_def deleteRole_def rows_for_def coverage_def no_orphans_def
  permission_invariant_def exampleStore_def Let_def

lemma feature_create_Inr:
  "feature_create nid nm d s = Inr (f, s1) \<Longrightarrow>
     f = \<lparr>feature_id = nid, feature_name = nm, feature_description = d\<rparr> \<and>
     s1 = s\<lparr>features := features s @ [f]\<rparr> \<and> nid \<notin> set (feature_ids s)"
  by (auto simp: feature_create_def Let_def split: if_splits)

lemma rf_key_roleFeatureOf [simp]:
  "rf_key (roleFeatureOf r ps f) = (role_id r, feature_id f)"
  by (simp add: rf_key_def roleFeatureOf_def rowAll_def rowOfFlags_def split: option.splits)

lemma rf_key_defaultRowOf [simp]:
  "rf_key (defaultRowOf f dp r) = (role_id r, feature_id f)"
  by (simp add: rf_key_def defaultRowOf_def rowAll_def rowOfFlags_def)

lemma rows_for_key:
  "rows_for rid fid s = filter (\<lambda>x. rf_key x = (rid, fid)) (roleFeatures s)"
  by (simp add: rows_for_def rf_key_def)

lemma createRole_Inr:
  assumes "createRole nid data s = (Inr v, s')"
  shows "\<exists>r rows. r = \<lparr>role_id = nid, role_name = cr_name data, role_description = cr_description data\<rparr>
     \<and> nid \<notin> set (role_ids s)
     \<and> rows = map (roleFeatureOf r (case cr_permissions data of None \<Rightarrow> [] | Some ps \<Rightarrow> ps)) (features s)
     \<and> (if rows = [] then s' = s\<lparr>roles := roles s @ [r]\<rparr>
         else roleFeature_createMany rows (s\<lparr>roles := roles s @ [r]\<rparr>) = Inr s')"
  using assms[unfolded createRole_def, THEN transaction_Inr]
  by (auto simp: Let_def split: if_splits sum.splits prod.splits option.splits dest!: role_create_Inr)

lemma createRole_Inr_store:
  assumes "createRole nid data s = (Inr v, s')"
  defines "r \<equiv> \<lparr>role_id = nid, role_name = cr_name data, role_description = cr_description data\<rparr>"
  defines "rows \<equiv> map (roleFeatureOf r (case cr_permissions data of None \<Rightarrow> [] | Some ps \<Rightarrow> ps)) (features s)"
  shows "s' = s\<lparr>roles := roles s @ [r], roleFeatures := roleFeatures s @ rows\<rparr>"
    and "features s \<noteq> [] \<Longrightarrow> distinct (map rf_key (roleFeatures s @ rows))"
    and "nid \<notin> set (role_ids s)"
proof -
  from createRole_Inr[OF assms(1)] have nid: "nid \<notin> set (role_ids s)"
    and alt: "if rows = [] then s' = s\<lparr>roles := roles s @ [r]\<rparr>
         else roleFeature_createMany rows (s\<lparr>roles := roles s @ [r]\<rparr>) = Inr s'"
    unfolding r_def rows_def by auto
  show "nid \<notin> set (role_ids s)" by (rule nid)
  show "s' = s\<lparr>roles := roles s @ [r], roleFeatures := roleFeatures s @ rows\<rparr>"
  proof (cases "rows = []")
    case True
    with alt show ?thesis by simp
  next
    case False
    with alt show ?thesis by (auto dest!: createMany_Inr)
  qed
  show "distinct (map rf_key (roleFeatures s @ rows))" if "features s \<noteq> []"
  proof -
    from that have "rows \<noteq> []" by (simp add: rows_def)
    with alt have "roleFeature_createMany rows (s\<lparr>roles := roles s @ [r]\<rparr>) = Inr s'" by simp
    from createMany_Inr[OF this] show ?thesis by simp
  qed
qed

subsection \<open>Creating features and roles\<close>


lemma createFeature_Inr:
  assumes "createFeature nid data s = (Inr v, s')"
    and "cf_defaultPermissions data = Some dp"
  shows "\<exists>f rows. f = \<lparr>feature_id = nid, feature_name = cf_name data,
                        feature_description = cf_description data\<rparr>
     \<and> nid \<notin> set (feature_ids s)
     \<and> rows = map (defaultRowOf f dp) (roles s)
     \<and> (if rows = [] then s' = s\<lparr>features := features s @ [f]\<rparr>
         else roleFeature_createMany rows (s\<lparr>features := features s @ [f]\<rparr>) = Inr s')"
  using assms(1)[unfolded createFeature_def, THEN transaction_Inr] assms(2)
  by (auto simp: Let_def split: if_splits sum.splits prod.splits option.splits
      dest!: feature_create_Inr)

lemma createFeature_Inr_store:
  assumes "createFeature nid data s = (Inr v, s')"
    and "cf_defaultPermissions data = Some dp"
  defines "f \<equiv> \<lparr>feature_id = nid, feature_name = cf_name data,
                  feature_description = cf_description data\<rparr>"
  defines "rows \<equiv> map (defaultRowOf f dp) (roles s)"
  shows "s' = s\<lparr>features := features s @ [f], roleFeatures := roleFeatures s @ rows\<rparr>"
    and "roles s \<noteq> [] \<Longrightarrow> distinct (map rf_key (roleFeatures s @ rows))"
    and "nid \<notin> set (feature_ids s)"
proof -
  from createFeature_Inr[OF assms(1,2)] have nid: "nid \<notin> set (feature_ids s)"
    and alt: "if rows = [] then s' = s\<lparr>features := features s @ [f]\<rparr>
         else roleFeature_createMany rows (s\<lparr>features := features s @ [f]\<rparr>) = Inr s'"
    unfolding f_def rows_def by auto
  show "nid \<notin> set (feature_ids s)" by (rule nid)
  show "s' = s\<lparr>features := features s @ [f], roleFeatures := roleFeatures s @ rows\<rparr>"
  proof (cases "rows = []")
    case True
    with alt show ?thesis by simp
  next
    case False
    with alt show ?thesis by (auto dest!: createMany_Inr)
  qed
  show "distinct (map rf_key (roleFeatures s @ rows))" if "roles s \<noteq> []"
  proof -
    from that have "rows \<noteq> []" by (simp add: rows_def)
    with alt have "roleFeature_createMany rows (s\<lparr>features := features s @ [f]\<rparr>) = Inr s'"
      by simp
    from createMany_Inr[OF this] show ?thesis by simp
  qed
qed

lemma createFeature_rows_for:
  assumes "createFeature nid data s = (Inr v, s')"
    and "cf_defaultPermissions data = Some dp"
    and "r \<in> set (roles s)"
  shows "rows_for (role_id r) nid s' =
           [if isAdmin r then rowAll (role_id r) nid True else rowOfFlags (role_id r) nid dp]"
proof -
  define f where "f = \<lparr>feature_id = nid, feature_name = cf_name data,
                  feature_description = cf_description data\<rparr>"
  define rows where "rows = map (defaultRowOf f dp) (roles s)"
  note st = createFeature_Inr_store[OF assms(1,2), folded f_def, folded rows_def]
  from assms(3) have ne: "roles s \<noteq> []" by auto
  have mem: "defaultRowOf f dp r \<in> set (roleFeatures s @ rows)"
    using assms(3) by (simp add: rows_def)
  have "rows_for (role_id r) nid s' =
          filter (\<lambda>x. rf_key x = rf_key (defaultRowOf f dp r)) (roleFeatures s @ rows)"
    using st(1) by (simp add: rows_for_key f_def)
  also have "\<dots> = [defaultRowOf f dp r]"
    by (rule filter_key_unique[OF st(2)[OF ne] mem])
  finally show ?thesis by (simp add: defaultRowOf_def f_def)
qed

subsection \<open>Preservation of the coverage invariant\<close>

lemma coverage_iff:
  "coverage s \<longleftrightarrow>
     (\<forall>r\<in>set (roles s). \<forall>f\<in>set (features s).
        length (rows_for (role_id r) (feature_id f) s) = 1)"
  by (simp add: coverage_def list_all_iff)

lemma no_orphans_iff:
  "no_orphans s \<longleftrightarrow>
     (\<forall>x\<in>set (roleFeatures s).
        rf_roleId x \<in> set (role_ids s) \<and> rf_featureId x \<in> set (feature_ids s))"
  by (simp add: no_orphans_def list_all_iff)

lemma rf_roleId_roleFeatureOf [simp]: "rf_roleId (roleFeatureOf r ps f) = role_id r"
  and rf_featureId_roleFeatureOf [simp]: "rf_featureId (roleFeatureOf r ps f) = feature_id f"
  by (simp_all add: roleFeatureOf_def rowAll_def rowOfFlags_def split: option.splits)

lemma rf_roleId_defaultRowOf [simp]: "rf_roleId (defaultRowOf f dp r) = role_id r"
  and rf_featureId_defaultRowOf [simp]: "rf_featureId (defaultRowOf f dp r) = feature_id f"
  by (simp_all add: defaultRowOf_def rowAll_def rowOfFlags_def)

lemma createRole_rows_for:
  assumes "createRole nid data s = (Inr v, s')"
    and "f \<in> set (features s)"
  shows "rows_for nid (feature_id f) s' =
           [roleFeatureOf \<lparr>role_id = nid, role_name = cr_name data,
                            role_description = cr_description data\<rparr>
              (case cr_permissions data of None \<Rightarrow> [] | Some ps \<Rightarrow> ps) f]"
proof -
  define r where "r = \<lparr>role_id = nid, role_name = cr_name data, role_description = cr_description data\<rparr>"
  define rows where "rows = map (roleFeatureOf r (case cr_permissions data of None \<Rightarrow> [] | Some ps \<Rightarrow> ps)) (features s)"
  note st = createRole_Inr_store[OF assms(1), folded r_def, folded rows_def]
  from assms(2) have ne: "features s \<noteq> []" by auto
  have mem: "roleFeatureOf r (case cr_permissions data of None \<Rightarrow> [] | Some ps \<Rightarrow> ps) f
               \<in> set (roleFeatures s @ rows)"
    using assms(2) by (simp add: rows_def)
  have "rows_for nid (feature_id f) s' =
          filter (\<lambda>x. rf_key x = rf_key (roleFeatureOf r (case cr_permissions data of None \<Rightarrow> [] | Some ps \<Rightarrow> ps) f))
            (roleFeatures s @ rows)"
    using st(1) by (simp add: rows_for_key r_def)
  also have "\<dots> = [roleFeatureOf r (case cr_permissions data of None \<Rightarrow> [] | Some ps \<Rightarrow> ps) f]"
    by (rule filter_key_unique[OF st(2)[OF ne] mem])
  finally show ?thesis by (simp add: r_def)
qed

lemma createRole_preserves:
  assumes inv: "permission_invariant s"
    and run: "createRole nid data s = (Inr v, s')"
  shows "permission_invariant s'"
proof -
  define r where "r = \<lparr>role_id = nid, role_name = cr_name data, role_description = cr_description data\<rparr>"
  define rows where "rows = map (roleFeatureOf r (case cr_permissions data of None \<Rightarrow> [] | Some ps \<Rightarrow> ps)) (features s)"
  note st = createRole_Inr_store[OF run, folded r_def, folded rows_def]
  from inv have cov: "coverage s" and orp: "no_orphans s"
    by (simp_all add: permission_invariant_def)
  have old: "filter (\<lambda>x. rf_roleId x = role_id r0 \<and> rf_featureId x = fid) rows = []"
    if "r0 \<in> set (roles s)" for r0 fid
  proof -
    from that st(3) have "role_id r0 \<noteq> nid" by (auto simp: role_ids_def)
    then show ?thesis by (auto simp: filter_empty_conv rows_def r_def)
  qed
  have "coverage s'"
    unfolding coverage_iff
  proof (intro ballI)
    fix r0 f assume r0: "r0 \<in> set (roles s')" and f: "f \<in> set (features s')"
    from f st(1) have f': "f \<in> set (features s)" by simp
    from r0 st(1) consider "r0 \<in> set (roles s)" | "r0 = r" by auto
    then show "length (rows_for (role_id r0) (feature_id f) s') = 1"
    proof cases
      case 1
      with cov f' have "length (rows_for (role_id r0) (feature_id f) s) = 1"
        by (simp add: coverage_iff)
      with old[OF 1] st(1) show ?thesis by (simp add: rows_for_def)
    next
      case 2
      with createRole_rows_for[OF run f'] show ?thesis by (simp add: r_def)
    qed
  qed
  moreover have "no_orphans s'"
    using orp st(1) by (auto simp: no_orphans_iff role_ids_def feature_ids_def rows_def r_def)
  ultimately show ?thesis by (simp add: permission_invariant_def)
qed

lemma createFeature_preserves:
  assumes inv: "permission_invariant s"
    and run: "createFeature nid data s = (Inr v, s')"
    and dp: "cf_defaultPermissions data = Some dp"
  shows "permission_invariant s'"
proof -
  define f where "f = \<lparr>feature_id = nid, feature_name = cf_name data,
                  feature_description = cf_description data\<rparr>"
  define rows where "rows = map (defaultRowOf f dp) (roles s)"
  note st = createFeature_Inr_store[OF run dp, folded f_def, folded rows_def]
  from inv have cov: "coverage s" and orp: "no_orphans s"
    by (simp_all add: permission_invariant_def)
  have old: "filter (\<lambda>x. rf_roleId x = rid \<and> rf_featureId x = feature_id f0) rows = []"
    if "f0 \<in> set (features s)" for f0 rid
  proof -
    from that st(3) have "feature_id f0 \<noteq> nid" by (auto simp: feature_ids_def)
    then show ?thesis by (auto simp: filter_empty_conv rows_def f_def)
  qed
  have "coverage s'"
    unfolding coverage_iff
  proof (intro ballI)
    fix r f0 assume r: "r \<in> set (roles s')" and f0: "f0 \<in> set (features s')"
    from r st(1) have r': "r \<in> set (roles s)" by simp
    from f0 st(1) consider "f0 \<in> set (features s)" | "f0 = f" by auto
    then show "length (rows_for (role_id r) (feature_id f0) s') = 1"
    proof cases
      case 1
      with cov r' have "length (rows_for (role_id r) (feature_id f0) s) = 1"
        by (simp add: coverage_iff)
      with old[OF 1] st(1) show ?thesis by (simp add: rows_for_def)
    next
      case 2
      with createFeature_rows_for[OF run dp r'] show ?thesis by (simp add: f_def)
    qed
  qed
  moreover have "no_orphans s'"
    using orp st(1) by (auto simp: no_orphans_iff role_ids_def feature_ids_def rows_def f_def)
  ultimately show ?thesis by (simp add: permission_invariant_def)
qed

lemma deleteRole_Inr:
  "deleteRole i s = (Inr v, s') \<Longrightarrow>
     s' = s\<lparr>roles := filter (\<lambda>x. role_id x \<noteq> i) (roles s),
            roleFeatures := filter (\<lambda>x. rf_roleId x \<noteq> i) (roleFeatures s)\<rparr>"
  by (auto simp: deleteRole_def role_delete_def split: option.splits if_splits)

lemma deleteFeature_Inr:
  "deleteFeature i s = (Inr v, s') \<Longrightarrow>
     s' = s\<lparr>features := filter (\<lambda>x. feature_id x \<noteq> i) (features s),
            roleFeatures := filter (\<lambda>x. rf_featureId x \<noteq> i) (roleFeatures s)\<rparr>"
  by (auto simp: deleteFeature_def feature_delete_def split: option.splits if_splits)

lemma deleteRole_preserves:
  assumes inv: "permission_invariant s"
    and run: "deleteRole i s = (Inr v, s')"
  shows "permission_invariant s'"
proof -
  note st = deleteRole_Inr[OF run]
  from inv have cov: "coverage s" and orp: "no_orphans s"
    by (simp_all add: permission_invariant_def)
  have "coverage s'"
    unfolding coverage_iff
  proof (intro ballI)
    fix r f assume r: "r \<in> set (roles s')" and f: "f \<in> set (features s')"
    from r st have r': "r \<in> set (roles s)" and ne: "role_id r \<noteq> i" by auto
    from f st have f': "f \<in> set (features s)" by simp
    have "rows_for (role_id r) (feature_id f) s' = rows_for (role_id r) (feature_id f) s"
      unfolding rows_for_def using st ne by (auto intro!: filter_cong)
    with cov r' f' show "length (rows_for (role_id r) (feature_id f) s') = 1"
      by (simp add: coverage_iff)
  qed
  moreover have "no_orphans s'"
    using orp st by (auto simp: no_orphans_iff role_ids_def feature_ids_def)
  ultimately show ?thesis by (simp add: permission_invariant_def)
qed

lemma deleteFeature_preserves:
  assumes inv: "permission_invariant s"
    and run: "deleteFeature i s = (Inr v, s')"
  shows "permission_invariant s'"
proof -
  note st = deleteFeature_Inr[OF run]
  from inv have cov: "coverage s" and orp: "no_orphans s"
    by (simp_all add: permission_invariant_def)
  have "coverage s'"
    unfolding coverage_iff
  proof (intro ballI)
    fix r f assume r: "r \<in> set (roles s')" and f: "f \<in> set (features s')"
    from f st have f': "f \<in> set (features s)" and ne: "feature_id f \<noteq> i" by auto
    from r st have r': "r \<in> set (roles s)" by simp
    have "rows_for (role_id r) (feature_id f) s' = rows_for (role_id r) (feature_id f) s"
      unfolding rows_for_def using st ne by (auto intro!: filter_cong)
    with cov r' f' show "length (rows_for (role_id r) (feature_id f) s') = 1"
      by (simp add: coverage_iff)
  qed
  moreover have "no_orphans s'"
    using orp st by (auto simp: no_orphans_iff role_ids_def feature_ids_def)
  ultimately show ?thesis by (simp add: permission_invariant_def)
qed


lemma coverage_ids:
  "coverage s \<longleftrightarrow>
     (\<forall>rid\<in>set (role_ids s). \<forall>fid\<in>set (feature_ids s). length (rows_for rid fid s) = 1)"
  by (auto simp: coverage_iff role_ids_def feature_ids_def)

lemma role_update_Inr:
  "role_update i nm d s = Inr (r', s1) \<Longrightarrow>
     role_id r' = i \<and> s1 = s\<lparr>roles := map (\<lambda>x. if role_id x = i then r' else x) (roles s)\<rparr>"
  by (auto simp: role_update_def role_findUnique_def Let_def
      split: option.splits if_splits dest: find_Some_iff[THEN iffD1])

lemma feature_update_Inr:
  "feature_update i nm d s = Inr (f', s1) \<Longrightarrow>
     feature_id f' = i \<and>
     s1 = s\<lparr>features := map (\<lambda>x. if feature_id x = i then f' else x) (features s)\<rparr>"
  by (auto simp: feature_update_def feature_findUnique_def Let_def
      split: option.splits if_splits dest: find_Some_iff[THEN iffD1])

lemma map_key_replace:
  "k y = i \<Longrightarrow> map k (map (\<lambda>x. if k x = i then y else x) xs) = map k xs"
  by (induction xs) auto

lemma role_update_ids:
  "role_update i nm d s = Inr (r', s1) \<Longrightarrow>
     role_ids s1 = role_ids s \<and> features s1 = features s \<and> roleFeatures s1 = roleFeatures s"
  by (auto dest!: role_update_Inr simp: role_ids_def map_key_replace)

lemma feature_update_ids:
  "feature_update i nm d s = Inr (f', s1) \<Longrightarrow>
     feature_ids s1 = feature_ids s \<and> roles s1 = roles s \<and> roleFeatures s1 = roleFeatures s"
  by (auto dest!: feature_update_Inr simp: feature_ids_def map_key_replace)

lemma invariant_by_ids:
  assumes "permission_invariant s"
    and "role_ids s1 = role_ids s" "feature_ids s1 = feature_ids s"
    and "roleFeatures s1 = roleFeatures s"
  shows "permission_invariant s1"
  using assms
  by (simp add: permission_invariant_def coverage_ids no_orphans_iff rows_for_def)

lemma updateFeature_preserves:
  assumes inv: "permission_invariant s"
    and run: "updateFeature i data s = (Inr v, s')"
  shows "permission_invariant s'"
proof -
  from run obtain f' where "feature_update i (uf_name data) (uf_description data) s = Inr (f', s')"
    by (auto simp: updateFeature_def split: sum.splits)
  from feature_update_ids[OF this] inv show ?thesis
    by (auto intro: invariant_by_ids simp: role_ids_def)
qed

lemma updateRole_Inr:
  assumes "updateRole i data s = (Inr v, s')"
  shows "\<exists>r' s1. role_update i (ur_name data) (ur_description data) s = Inr (r', s1) \<and>
     (case ur_permissions data of
        None \<Rightarrow> s' = s1
      | Some ps \<Rightarrow>
          if ps = [] then s' = roleFeature_deleteMany i s1
          else roleFeature_createMany (map (\<lambda>p. rowOfFlags i (in_featureId p) p) ps)
                 (roleFeature_deleteMany i s1) = Inr s')"
  using assms[unfolded updateRole_def, THEN transaction_Inr]
  by (auto simp: Let_def split: if_splits sum.splits prod.splits option.splits)

lemma updateRole_preserves:
  assumes inv: "permission_invariant s"
    and run: "updateRole i data s = (Inr v, s')"
    and full: "ur_permissions data = None \<or>
               (\<exists>ps. ur_permissions data = Some ps \<and>
                     set (feature_ids s) \<subseteq> set (map in_featureId ps))"
  shows "permission_invariant s'"
proof -
  from updateRole_Inr[OF run] obtain r' s1 where
    ru: "role_update i (ur_name data) (ur_description data) s = Inr (r', s1)"
    and alt: "case ur_permissions data of
        None \<Rightarrow> s' = s1
      | Some ps \<Rightarrow>
          if ps = [] then s' = roleFeature_deleteMany i s1
          else roleFeature_createMany (map (\<lambda>p. rowOfFlags i (in_featureId p) p) ps)
                 (roleFeature_deleteMany i s1) = Inr s'"
    by blast
  note ids = role_update_ids[OF ru]
  from ids have fids: "feature_ids s1 = feature_ids s" by (simp add: feature_ids_def)
  from inv ids fids have inv1: "permission_invariant s1" by (auto intro: invariant_by_ids)
  show ?thesis
  proof (cases "ur_permissions data")
    case None
    with alt inv1 show ?thesis by simp
  next
    case (Some ps)
    with full have cover: "set (feature_ids s) \<subseteq> set (map in_featureId ps)" by simp
    define kept where "kept = filter (\<lambda>x. rf_roleId x \<noteq> i) (roleFeatures s)"
    define rows where "rows = map (\<lambda>p. rowOfFlags i (in_featureId p) p) ps"
    have s2: "roleFeature_deleteMany i s1 = s1\<lparr>roleFeatures := kept\<rparr>"
      using ids by (simp add: roleFeature_deleteMany_def kept_def)
    have st: "s' = s1\<lparr>roleFeatures := kept @ rows\<rparr>"
      and fk: "list_all (\<lambda>x. rf_roleId x \<in> set (role_ids s) \<and>
                             rf_featureId x \<in> set (feature_ids s)) rows"
      and dist: "rows \<noteq> [] \<Longrightarrow> distinct (map rf_key (kept @ rows))"
    proof -
      show "s' = s1\<lparr>roleFeatures := kept @ rows\<rparr>"
      proof (cases "ps = []")
        case True
        with alt Some s2 show ?thesis by (simp add: rows_def)
      next
        case False
        with alt Some have "roleFeature_createMany rows (s1\<lparr>roleFeatures := kept\<rparr>) = Inr s'"
          by (simp add: rows_def s2)
        from createMany_Inr[OF this] show ?thesis by simp
      qed
      show "list_all (\<lambda>x. rf_roleId x \<in> set (role_ids s) \<and>
                             rf_featureId x \<in> set (feature_ids s)) rows"
      proof (cases "ps = []")
        case True
        then show ?thesis by (simp add: rows_def)
      next
        case False
        with alt Some have "roleFeature_createMany rows (s1\<lparr>roleFeatures := kept\<rparr>) = Inr s'"
          by (simp add: rows_def s2)
        from createMany_Inr[OF this]
        have "list_all (\<lambda>x. rf_roleId x \<in> set (role_ids (s1\<lparr>roleFeatures := kept\<rparr>)) \<and>
                rf_featureId x \<in> set (feature_ids (s1\<lparr>roleFeatures := kept\<rparr>))) rows"
          by blast
        moreover have "role_ids (s1\<lparr>roleFeatures := kept\<rparr>) = role_ids s"
          using ids by (simp add: role_ids_def)
        moreover have "feature_ids (s1\<lparr>roleFeatures := kept\<rparr>) = feature_ids s"
          using ids by (simp add: feature_ids_def)
        ultimately show ?thesis by simp
      qed
      show "distinct (map rf_key (kept @ rows))" if "rows \<noteq> []"
      proof -
        from that have "ps \<noteq> []" by (auto simp: rows_def)
        with alt Some have "roleFeature_createMany rows (s1\<lparr>roleFeatures := kept\<rparr>) = Inr s'"
          by (simp add: rows_def s2)
        from createMany_Inr[OF this] show ?thesis by simp
      qed
    qed
    from inv have cov: "coverage s" and orp: "no_orphans s"
      by (simp_all add: permission_invariant_def)
    have rids: "role_ids s' = role_ids s" and fids': "feature_ids s' = feature_ids s"
      using st ids fids by (simp_all add: role_ids_def feature_ids_def)
    have "coverage s'"
      unfolding coverage_ids rids fids'
    proof (intro ballI)
      fix rid fid assume rid: "rid \<in> set (role_ids s)" and fid: "fid \<in> set (feature_ids s)"
      show "length (rows_for rid fid s') = 1"
      proof (cases "rid = i")
        case False
        have "filter (\<lambda>x. rf_roleId x = rid \<and> rf_featureId x = fid) rows = []"
          using False by (auto simp: filter_empty_conv rows_def rowOfFlags_def)
        moreover have "filter (\<lambda>x. rf_roleId x = rid \<and> rf_featureId x = fid) kept
              = rows_for rid fid s"
          unfolding kept_def rows_for_def using False by (auto intro!: filter_cong)
        ultimately have "rows_for rid fid s' = rows_for rid fid s"
          using st by (simp add: rows_for_def)
        with cov rid fid show ?thesis by (simp add: coverage_ids)
      next
        case True
        from cover fid obtain p where p: "p \<in> set ps" and pf: "in_featureId p = fid" by auto
        then have mem: "rowOfFlags i fid p \<in> set (kept @ rows)" by (auto simp: rows_def)
        from p have ne: "rows \<noteq> []" by (auto simp: rows_def)
        have "rows_for rid fid s' =
                filter (\<lambda>x. rf_key x = rf_key (rowOfFlags i fid p)) (kept @ rows)"
          using st True by (simp add: rows_for_key rf_key_def rowOfFlags_def)
        also have "\<dots> = [rowOfFlags i fid p]"
          by (rule filter_key_unique[OF dist[OF ne] mem])
        finally show ?thesis by simp
      qed
    qed
    moreover have "no_orphans s'"
      unfolding no_orphans_iff rids fids'
      using orp fk st by (auto simp: no_orphans_iff kept_def list_all_iff)
    ultimately show ?thesis by (simp add: permission_invariant_def)
  qed
qed

text \<open>
  The two calls the coverage invariant does not survive: a feature created without
  \<open>defaultPermissions\<close> gets no row at all, and after \<open>updateRole\<close> with a permission
  list the role has no row for any feature the list does not name.
\<close>

lemma createFeature_without_defaults:
  assumes "createFeature nid data s = (Inr v, s')" and "cf_defaultPermissions data = None"
  shows "roleFeatures s' = roleFeatures s" and "roles s' = roles s"
    and "rows_for rid nid s' = rows_for rid nid s"
  using assms(1)[unfolded createFeature_def, THEN transaction_Inr] assms(2)
  by (auto simp: Let_def rows_for_def split: if_splits sum.splits prod.splits option.splits
      dest!: feature_create_Inr)

lemma updateRole_partial_list:
  assumes "updateRole i data s = (Inr v, s')" and "ur_permissions data = Some ps"
    and "fid \<notin> set (map in_featureId ps)"
  shows "rows_for i fid s' = []"
proof -
  from updateRole_Inr[OF assms(1)] assms(2) obtain r' s1 where
    ru: "role_update i (ur_name data) (ur_description data) s = Inr (r', s1)"
    and alt: "if ps = [] then s' = roleFeature_deleteMany i s1
          else roleFeature_createMany (map (\<lambda>p. rowOfFlags i (in_featureId p) p) ps)
                 (roleFeature_deleteMany i s1) = Inr s'"
    by auto
  have "roleFeatures s' = roleFeatures (roleFeature_deleteMany i s1) @
          (map (\<lambda>p. rowOfFlags i (in_featureId p) p) ps)"
    using alt by (auto split: if_splits dest!: createMany_Inr)
  with assms(3) show ?thesis
    by (auto simp: rows_for_def roleFeature_deleteMany_def filter_empty_conv rowOfFlags_def)
qed

lemma invariant_snd:
  assumes "permission_invariant s"
    and "\<And>v s'. r = (Inr v, s') \<Longrightarrow> permission_invariant s'"
    and "\<And>e s'. r = (Inl e, s') \<Longrightarrow> s' = s"
  shows "permission_invariant (snd r)"
proof (cases r)
  case (Pair a s')
  with assms show ?thesis by (cases a) auto
qed

lemma deleteRole_Inl: "deleteRole i s = (Inl e, s') \<Longrightarrow> s' = s"
  by (auto simp: deleteRole_def split: option.splits if_splits sum.splits)

lemma deleteFeature_Inl: "deleteFeature i s = (Inl e, s') \<Longrightarrow> s' = s"
  by (auto simp: deleteFeature_def split: option.splits if_splits sum.splits)

lemma updateFeature_Inl: "updateFeature i data s = (Inl e, s') \<Longrightarrow> s' = s"
  by (auto simp: updateFeature_def split: sum.splits)

lemma createRole_Inl: "createRole nid data s = (Inl e, s') \<Longrightarrow> s' = s"
  unfolding createRole_def by (auto dest: transaction_Inl)

lemma createFeature_Inl: "createFeature nid data s = (Inl e, s') \<Longrightarrow> s' = s"
  unfolding createFeature_def by (auto dest: transaction_Inl)

lemma updateRole_Inl: "updateRole nid data s = (Inl e, s') \<Longrightarrow> s' = s"
  unfolding updateRole_def by (auto dest: transaction_Inl)

lemma example_invariant: "permission_invariant exampleStore"
  by (simp add: eval_defs)

subsection \<open>Users and sessions\<close>

lemmas auth_defs =
  user_create_def user_update_def user_delete_def roleNameOf_def createUser_def
  updateUser_def deleteUser_def truthy_def orElse_def startsWith_def authMiddleware_def
  statusOfError_def jwt_verify_def refreshToken_findUnique_def incrementTokenVersion_def
  revokeToken_def revokeAllOfUser_def refreshToken_create_def refresh_def logout_def
  logoutAll_def errorResponse_def successResponse_def routeStatus_def refreshRoute_def
  logoutRoute_def TokenSchema_def body_refresh_token_def exampleDecode_def exampleVerify_def
  exampleAccessVerify_def
  exampleSign_def

lemma createUser_SuperAdmin_rejected:
  "roleNameOf (cu_roleId data) s = Some ''SuperAdmin'' \<Longrightarrow>
     createUser hash nid data s = (Inl CreateSystemError, s)"
  by (simp add: createUser_def)

lemma updateUser_deactivate_SuperAdmin_rejected:
  "uu_isActive data = Some False \<Longrightarrow> user_findUnique i s = Some u \<Longrightarrow>
   roleNameOf (user_roleId u) s = Some ''SuperAdmin'' \<Longrightarrow>
     updateUser hash i data s = (Inl UpdateSystemError, s)"
  by (simp add: updateUser_def split: option.splits)

lemma deleteUser_SuperAdmin_rejected:
  "user_findUnique t s = Some u \<Longrightarrow> roleNameOf (user_roleId u) s = Some ''SuperAdmin'' \<Longrightarrow>
     deleteUser t req s =
       (Inl (if t = req then DeleteSelfError else DeleteSystemError), s)"
  by (simp add: deleteUser_def PROTECTED_ROLES_def)

lemma find_map_update:
  "find (\<lambda>x. k x = i) xs = Some u \<Longrightarrow> (\<And>x. k (f x) = k x) \<Longrightarrow>
     find (\<lambda>x. k x = i) (map (\<lambda>x. if P x then f x else x) xs)
       = Some (if P u then f u else u)"
  by (induction xs) (auto split: if_splits)

lemma user_after_increment:
  "user_findUnique uid s = Some u \<Longrightarrow>
     user_findUnique uid (incrementTokenVersion uid s) = Some (u\<lparr>tokenVersion := tokenVersion u + 1\<rparr>)"
proof -
  assume a: "user_findUnique uid s = Some u"
  then have uid: "user_id u = uid"
    by (auto simp: user_findUnique_def dest: find_Some_iff[THEN iffD1])
  from a have "find (\<lambda>x. user_id x = uid)
        (map (\<lambda>x. if user_id x = uid then x\<lparr>tokenVersion := tokenVersion x + 1\<rparr> else x) (users s))
      = Some (if user_id u = uid then u\<lparr>tokenVersion := tokenVersion u + 1\<rparr> else u)"
    unfolding user_findUnique_def by (rule find_map_update) simp
  with uid show ?thesis by (simp add: user_findUnique_def incrementTokenVersion_def)
qed


lemma token_after_revoke:
  "refreshToken_findUnique jti s = Some row \<Longrightarrow>
     refreshToken_findUnique jti (revokeToken jti s) = Some (row\<lparr>revoked := True\<rparr>)"
proof -
  assume a: "refreshToken_findUnique jti s = Some row"
  then have i: "rt_id row = jti"
    by (auto simp: refreshToken_findUnique_def dest: find_Some_iff[THEN iffD1])
  from a have "find (\<lambda>x. rt_id x = jti)
        (map (\<lambda>x. if rt_id x = jti then x\<lparr>revoked := True\<rparr> else x) (refreshTokens s))
      = Some (if rt_id row = jti then row\<lparr>revoked := True\<rparr> else row)"
    unfolding refreshToken_findUnique_def by (rule find_map_update) simp
  with i show ?thesis by (simp add: refreshToken_findUnique_def revokeToken_def)
qed


lemma logoutAll_Inr:
  assumes "logoutAll uid tid tv s = (Inr v, s')"
  shows "s' = incrementTokenVersion uid (revokeAllOfUser uid s)"
    and "\<exists>u. user_findUnique uid s = Some u \<and> isActive u \<and> tokenVersion u = tv"
    and "\<exists>row. refreshToken_findUnique tid s = Some row \<and> \<not> revoked row"
  using assms
  by (auto simp: logoutAll_def transaction_def split: option.splits if_splits)

lemma logoutAll_Inl: "logoutAll uid tid tv s = (Inl e, s') \<Longrightarrow> s' = s"
  by (auto simp: logoutAll_def transaction_def split: option.splits if_splits)

lemma revokeAll_all_revoked:
  assumes "t \<in> set (map (\<lambda>t. if rt_userId t = uid \<and> \<not> revoked t then t\<lparr>revoked := True\<rparr> else t) xs)"
    and "rt_userId t = uid"
  shows "revoked t"
proof -
  from assms(1) obtain x where
    x: "t = (if rt_userId x = uid \<and> \<not> revoked x then x\<lparr>revoked := True\<rparr> else x)"
    unfolding set_map by (rule imageE)
  show ?thesis
  proof (cases "rt_userId x = uid \<and> \<not> revoked x")
    case True
    from x[unfolded if_P[OF True]] show ?thesis by simp
  next
    case False
    note tx = x[unfolded if_not_P[OF False]]
    from assms(2) have "rt_userId x = uid" unfolding tx .
    with False have "revoked x" by blast
    then show ?thesis unfolding tx .
  qed
qed

lemma logout_never_fails: "fst (logout jti sub s) = Inr ()"
  by (simp add: logout_def split: option.splits)

lemma TokenSchema_iff:
  "TokenSchema body \<longleftrightarrow>
     body = JsonBody FieldAbsent \<or> (\<exists>t. body = JsonBody (FieldString t))"
  by (simp add: TokenSchema_def split: requestBody.splits tokenField.splits)

lemma logoutRoute_invalid_body:
  "\<not> TokenSchema body \<Longrightarrow>
     logoutRoute verify cookieToken body s = (Inr (errorResponse 400 ''Validation Error''), s)"
  by (simp add: logoutRoute_def)

lemma logoutRoute_result:
  "TokenSchema body \<Longrightarrow>
     fst (logoutRoute verify cookieToken body s) =
       Inr ((successResponse None ''Logged out successfully'' 200)\<lparr>resp_cookie := Some []\<rparr>)"
proof -
  assume ok: "TokenSchema body"
  have l:"(case logout jti sub s of (Inl e, s1) \<Rightarrow> (Inl e, s1) | (Inr _, s1) \<Rightarrow> (r, s1))
        = (r, snd (logout jti sub s))" for jti sub and r :: "error + unit response"
    using logout_never_fails[of jti sub s]
    by (cases "logout jti sub s") (auto split: sum.splits)
  show ?thesis
    unfolding logoutRoute_def Let_def l using ok
    by (simp split: option.splits jsval.splits prod.splits)
qed














section \<open>Claims\<close>





text \<open>
  C9. Every deletion attempt on an existing Role named \<^verbatim>\<open>SuperAdmin\<close> or an existing
  Feature named \<^verbatim>\<open>RBAC_management\<close> is rejected with \<open>DeleteSystemError\<close>, and the
  store (the entity and its RoleFeature rows included) is left exactly as it was. The
  services take no caller argument, so this holds for every caller.
\<close>

theorem protected_entities_cannot_be_deleted:
  "(role_findUnique i s = Some r \<longrightarrow> role_name r = ''SuperAdmin'' \<longrightarrow>
      deleteRole i s = (Inl DeleteSystemError, s)) \<and>
   (feature_findUnique j s = Some f \<longrightarrow> feature_name f = ''RBAC_management'' \<longrightarrow>
      deleteFeature j s = (Inl DeleteSystemError, s))"
  by (simp add: deleteRole_def deleteFeature_def PROTECTED_ROLES_def PROTECTED_FEATURES_def)

theorem protected_entities_cannot_be_deleted_witness:
  "role_findUnique ''r1'' exampleStore =
     Some \<lparr>role_id = ''r1'', role_name = ''SuperAdmin'', role_description = Some ''Root''\<rparr> \<and>
   deleteRole ''r1'' exampleStore = (Inl DeleteSystemError, exampleStore) \<and>
   feature_findUnique ''f1'' exampleStore =
     Some \<lparr>feature_id = ''f1'', feature_name = ''RBAC_management'', feature_description = None\<rparr> \<and>
   deleteFeature ''f1'' exampleStore = (Inl DeleteSystemError, exampleStore)"
proof -
  have r: "role_findUnique ''r1'' exampleStore =
     Some \<lparr>role_id = ''r1'', role_name = ''SuperAdmin'', role_description = Some ''Root''\<rparr>"
    by (simp add: role_findUnique_def exampleStore_def)
  have f: "feature_findUnique ''f1'' exampleStore =
     Some \<lparr>feature_id = ''f1'', feature_name = ''RBAC_management'', feature_description = None\<rparr>"
    by (simp add: feature_findUnique_def exampleStore_def)
  from protected_entities_cannot_be_deleted[of "''r1''" exampleStore _ "''f1''"] r f
  show ?thesis by simp
qed

text \<open>
  C2 (as amended). Whenever the store satisfies the permission coverage invariant (every
  existing role and every existing feature have exactly one RoleFeature row, and no
  row refers to a missing role or feature), it still does after \<open>createRole\<close>, after
  \<open>createFeature\<close> called with \<open>defaultPermissions\<close>, after \<open>updateFeature\<close>, after
  \<open>updateRole\<close> called without a permission list or with a list that names every
  existing feature, after \<open>deleteRole\<close> and after \<open>deleteFeature\<close>, whether the call
  succeeds or fails. \<open>createFeature\<close> without \<open>defaultPermissions\<close> and \<open>updateRole\<close>
  with a partial permission list are not covered: they leave pairs without a row.
\<close>

theorem permission_invariant_preserved:
  assumes "permission_invariant s"
  shows "permission_invariant (snd (createRole rid cr s)) \<and>
         (cf_defaultPermissions cf \<noteq> None \<longrightarrow>
            permission_invariant (snd (createFeature fid cf s))) \<and>
         permission_invariant (snd (updateFeature i uf s)) \<and>
         (ur_permissions ur = None \<or>
          (\<exists>ps. ur_permissions ur = Some ps \<and>
                set (feature_ids s) \<subseteq> set (map in_featureId ps)) \<longrightarrow>
            permission_invariant (snd (updateRole j ur s))) \<and>
         permission_invariant (snd (deleteRole k s)) \<and>
         permission_invariant (snd (deleteFeature l s))"
proof (intro conjI impI)
  show "permission_invariant (snd (createRole rid cr s))"
    by (rule invariant_snd[OF assms])
       (auto intro: createRole_preserves[OF assms] dest: createRole_Inl)
  show "permission_invariant (snd (createFeature fid cf s))"
    if "cf_defaultPermissions cf \<noteq> None"
  proof -
    from that obtain dp where "cf_defaultPermissions cf = Some dp" by auto
    then show ?thesis
      by (intro invariant_snd[OF assms])
         (auto intro: createFeature_preserves[OF assms] dest: createFeature_Inl)
  qed
  show "permission_invariant (snd (updateFeature i uf s))"
    by (rule invariant_snd[OF assms])
       (auto intro: updateFeature_preserves[OF assms] dest: updateFeature_Inl)
  show "permission_invariant (snd (updateRole j ur s))"
    if "ur_permissions ur = None \<or>
          (\<exists>ps. ur_permissions ur = Some ps \<and>
                set (feature_ids s) \<subseteq> set (map in_featureId ps))"
    by (rule invariant_snd[OF assms])
       (auto intro: updateRole_preserves[OF assms _ that] dest: updateRole_Inl)
  show "permission_invariant (snd (deleteRole k s))"
    by (rule invariant_snd[OF assms])
       (auto intro: deleteRole_preserves[OF assms] dest: deleteRole_Inl)
  show "permission_invariant (snd (deleteFeature l s))"
    by (rule invariant_snd[OF assms])
       (auto intro: deleteFeature_preserves[OF assms] dest: deleteFeature_Inl)
qed

theorem permission_invariant_preserved_witness:
  "permission_invariant exampleStore \<and>
   \<not> isl (fst (createRole ''r4'' exampleRoleInput exampleStore)) \<and>
   permission_invariant (snd (createRole ''r4'' exampleRoleInput exampleStore)) \<and>
   \<not> isl (fst (createFeature ''f3'' exampleFeatureInput exampleStore)) \<and>
   permission_invariant (snd (createFeature ''f3'' exampleFeatureInput exampleStore)) \<and>
   \<not> isl (fst (updateFeature ''f2'' exampleFeatureUpdate exampleStore)) \<and>
   permission_invariant (snd (updateFeature ''f2'' exampleFeatureUpdate exampleStore)) \<and>
   \<not> isl (fst (updateRole ''r3'' fullRoleUpdate exampleStore)) \<and>
   permission_invariant (snd (updateRole ''r3'' fullRoleUpdate exampleStore)) \<and>
   \<not> isl (fst (deleteRole ''r2'' exampleStore)) \<and>
   permission_invariant (snd (deleteRole ''r2'' exampleStore)) \<and>
   \<not> isl (fst (deleteFeature ''f2'' exampleStore)) \<and>
   permission_invariant (snd (deleteFeature ''f2'' exampleStore))"
proof -
  have inv: "permission_invariant exampleStore" by (rule example_invariant)
  have dp: "cf_defaultPermissions exampleFeatureInput \<noteq> None"
    by (simp add: exampleFeatureInput_def)
  have full: "ur_permissions fullRoleUpdate = None \<or>
          (\<exists>ps. ur_permissions fullRoleUpdate = Some ps \<and>
                set (feature_ids exampleStore) \<subseteq> set (map in_featureId ps))"
    by (simp add: fullRoleUpdate_def feature_ids_def exampleStore_def)
  have ok: "\<not> isl (fst (createRole ''r4'' exampleRoleInput exampleStore))"
    "\<not> isl (fst (createFeature ''f3'' exampleFeatureInput exampleStore))"
    "\<not> isl (fst (updateFeature ''f2'' exampleFeatureUpdate exampleStore))"
    "\<not> isl (fst (updateRole ''r3'' fullRoleUpdate exampleStore))"
    "\<not> isl (fst (deleteRole ''r2'' exampleStore))"
    "\<not> isl (fst (deleteFeature ''f2'' exampleStore))"
    by (simp_all add: eval_defs exampleRoleInput_def exampleFeatureInput_def
        exampleFeatureUpdate_def fullRoleUpdate_def)
  from permission_invariant_preserved[OF inv, of "''r4''" exampleRoleInput exampleFeatureInput
      "''f3''" "''f2''" exampleFeatureUpdate fullRoleUpdate "''r3''" "''r2''" "''f2''"]
    inv dp full ok
  show ?thesis by blast
qed

text \<open>
  C2 as stated fails. In a store that satisfies the invariant, \<open>updateRole\<close> with a
  permission list naming one of the two features succeeds and leaves the role without a
  row for the other feature (wipe and replace), and \<open>createFeature\<close> without
  \<open>defaultPermissions\<close> succeeds and creates no row at all.
\<close>

theorem coverage_lost_counterexample:
  "permission_invariant exampleStore \<and>
   \<not> isl (fst (updateRole ''r3'' partialRoleUpdate exampleStore)) \<and>
   rows_for ''r3'' ''f1'' (snd (updateRole ''r3'' partialRoleUpdate exampleStore)) = [] \<and>
   \<not> permission_invariant (snd (updateRole ''r3'' partialRoleUpdate exampleStore)) \<and>
   \<not> isl (fst (createFeature ''f3'' featureWithoutDefaults exampleStore)) \<and>
   rows_for ''r3'' ''f3'' (snd (createFeature ''f3'' featureWithoutDefaults exampleStore)) = [] \<and>
   \<not> permission_invariant (snd (createFeature ''f3'' featureWithoutDefaults exampleStore))"
  by (simp add: eval_defs partialRoleUpdate_def featureWithoutDefaults_def)

text \<open>
  C10. The claim says that no UserService operation can create a second SuperAdmin user
  or deactivate or delete the existing one. \<open>createUser\<close>, \<open>deleteUser\<close> and the
  deactivation guard of \<open>updateUser\<close> do what the claim says of them (lemmas
  \<open>createUser_SuperAdmin_rejected\<close>, \<open>deleteUser_SuperAdmin_rejected\<close>,
  \<open>updateUser_deactivate_SuperAdmin_rejected\<close>), but \<open>updateUser\<close> changes
  \<^verbatim>\<open>roleId\<close> without any guard. In the small store it gives the SuperAdmin role to a
  second user, and it moves the SuperAdmin user to another role, after which a second
  call deactivates that user.
\<close>

theorem updateUser_role_change_unguarded:
  "roleNameOf ''r1'' exampleStore = Some ''SuperAdmin'' \<and>
   map user_id (filter (\<lambda>u. user_roleId u = ''r1'') (users exampleStore)) = [''u1''] \<and>
   \<not> isl (fst (updateUser hash ''u2'' promoteToSuperAdmin exampleStore)) \<and>
   map user_id (filter (\<lambda>u. user_roleId u = ''r1'')
     (users (snd (updateUser hash ''u2'' promoteToSuperAdmin exampleStore)))) = [''u1'', ''u2''] \<and>
   \<not> isl (fst (updateUser hash ''u1'' demoteToClerk exampleStore)) \<and>
   \<not> isl (fst (updateUser hash ''u1'' deactivate
                 (snd (updateUser hash ''u1'' demoteToClerk exampleStore)))) \<and>
   map_option isActive (user_findUnique ''u1''
     (snd (updateUser hash ''u1'' deactivate
        (snd (updateUser hash ''u1'' demoteToClerk exampleStore))))) = Some False"
  by (simp add: eval_defs auth_defs promoteToSuperAdmin_def demoteToClerk_def deactivate_def)

text \<open>
  C3. The account-state check of a protected request, for a bearer token whose signature
  and expiry are good and whose claims are a string \<^verbatim>\<open>sub\<close> and a number \<^verbatim>\<open>tv\<close>:
  it rejects with Unauthorized (401) when the user no longer exists, with AccountDisabled
  (403) when the user is inactive, and with Unauthorized (401) when the user is active and
  the token's \<^verbatim>\<open>tv\<close> differs from the user's tokenVersion. In particular a token that
  was accepted is rejected with Unauthorized once the user's tokenVersion has been
  incremented. The inactive check comes before the version check, so an old token of an
  inactive user is rejected with AccountDisabled, as the last clause of the claim says.
\<close>

theorem authMiddleware_account_state:
  assumes "startsWith auth ''Bearer ''" and "verify (drop 7 auth) = Some p"
    and "p_sub p = JStr uid" and "p_tv p = JNum tv"
  shows
   "(user_findUnique uid s = None \<longrightarrow>
       authMiddleware verify (Some auth) s = Inl (UnauthorizedError ''User no longer exists'')) \<and>
    (\<forall>u. user_findUnique uid s = Some u \<longrightarrow> \<not> isActive u \<longrightarrow>
       authMiddleware verify (Some auth) s
         = Inl (AccountDisabledError ''Your account has been disabled.'')) \<and>
    (\<forall>u. user_findUnique uid s = Some u \<longrightarrow> isActive u \<longrightarrow> tokenVersion u \<noteq> tv \<longrightarrow>
       authMiddleware verify (Some auth) s
         = Inl (UnauthorizedError ''Session expired, please login again'')) \<and>
    (\<forall>u. user_findUnique uid s = Some u \<longrightarrow> isActive u \<longrightarrow> tokenVersion u = tv \<longrightarrow>
       authMiddleware verify (Some auth) s = Inr \<lparr>au_id = uid, au_tokenVersion = tv\<rparr> \<and>
       authMiddleware verify (Some auth) (incrementTokenVersion uid s)
         = Inl (UnauthorizedError ''Session expired, please login again'')) \<and>
    (\<forall>m. statusOfError (UnauthorizedError m) = 401 \<and>
         statusOfError (AccountDisabledError m) = 403)"
proof -
  have run: "authMiddleware verify (Some auth) s' =
      (case user_findUnique uid s' of
         None \<Rightarrow> Inl (UnauthorizedError ''User no longer exists'')
       | Some u \<Rightarrow>
           if \<not> isActive u
           then Inl (AccountDisabledError ''Your account has been disabled.'')
           else if tokenVersion u \<noteq> tv
           then Inl (UnauthorizedError ''Session expired, please login again'')
           else Inr \<lparr>au_id = uid, au_tokenVersion = tv\<rparr>)" for s'
    unfolding authMiddleware_def using assms by simp
  show ?thesis
    by (simp add: run user_after_increment statusOfError_def)
qed

theorem authMiddleware_account_state_witness:
  "authMiddleware (exampleAccessVerify 100) (Some ''Bearer access2'') exampleStore
     = Inr \<lparr>au_id = ''u2'', au_tokenVersion = 3\<rparr> \<and>
   authMiddleware (exampleAccessVerify 100) (Some ''Bearer access2'')
       (incrementTokenVersion ''u2'' exampleStore)
     = Inl (UnauthorizedError ''Session expired, please login again'') \<and>
   authMiddleware (exampleAccessVerify 100) (Some ''Bearer access2'')
       (snd (deleteUser ''u2'' ''u1'' exampleStore))
     = Inl (UnauthorizedError ''User no longer exists'') \<and>
   authMiddleware (exampleAccessVerify 100) (Some ''Bearer access3'') exampleStore
     = Inl (AccountDisabledError ''Your account has been disabled.'')"
proof -
  have b3: "startsWith ''Bearer access3'' ''Bearer ''"
    by (simp add: startsWith_def)
  have v3: "exampleAccessVerify 100 (drop 7 ''Bearer access3'')
             = Some \<lparr>p_sub = JStr ''u3'', p_tv = JNum 4, p_jti = None\<rparr>"
    by (simp add: auth_defs)
  have u3: "user_findUnique ''u3'' exampleStore =
      Some \<lparr>user_id = ''u3'', user_email = ''gone@example.com'', user_password = ''h3'',
          user_name = None, isActive = False, tokenVersion = 5, user_roleId = ''r3''\<rparr>"
    by (simp add: user_findUnique_def exampleStore_def)
  note t3 = authMiddleware_account_state
     [where verify = "exampleAccessVerify 100" and auth = "''Bearer access3''"
        and p = "\<lparr>p_sub = JStr ''u3'', p_tv = JNum 4, p_jti = None\<rparr>"
        and uid = "''u3''" and tv = 4 and s = exampleStore, OF b3 v3]
  have b: "startsWith ''Bearer access2'' ''Bearer ''"
    by (simp add: startsWith_def)
  have v: "exampleAccessVerify 100 (drop 7 ''Bearer access2'')
             = Some \<lparr>p_sub = JStr ''u2'', p_tv = JNum 3, p_jti = None\<rparr>"
    by (simp add: auth_defs)
  have u: "user_findUnique ''u2'' exampleStore =
      Some \<lparr>user_id = ''u2'', user_email = ''clerk@example.com'', user_password = ''h2'',
          user_name = Some ''Clerk One'', isActive = True, tokenVersion = 3,
          user_roleId = ''r3''\<rparr>"
    by (simp add: user_findUnique_def exampleStore_def)
  have g: "user_findUnique ''u2'' (snd (deleteUser ''u2'' ''u1'' exampleStore)) = None"
    by (simp add: eval_defs auth_defs)
  note t = authMiddleware_account_state
     [where verify = "exampleAccessVerify 100" and auth = "''Bearer access2''"
        and p = "\<lparr>p_sub = JStr ''u2'', p_tv = JNum 3, p_jti = None\<rparr>"
        and uid = "''u2''" and tv = 3, OF b v]
  from t[of exampleStore] t[of "snd (deleteUser ''u2'' ''u1'' exampleStore)"] t3 u g u3
  show ?thesis by simp
qed


text \<open>
  C5. When the row of the presented refresh token exists and is not revoked and the owning
  user is active, \<open>refresh\<close> fails with \<open>TokenVersionMismatch\<close> whenever the token's
  \<^verbatim>\<open>tv\<close> claim differs from the user's current tokenVersion, and changes nothing; the
  route passes the error on after its own signature and expiry verification, and the
  client sees status 401.
\<close>

theorem refresh_version_mismatch:
  assumes "refreshToken_findUnique jti s = Some row" and "\<not> revoked row"
    and "user_findUnique (rt_userId row) s = Some u" and "isActive u"
    and "tv \<noteq> tokenVersion u"
  shows "refresh newId now lifetime jti sub tv s = (Inl TokenVersionMismatch, s) \<and>
         (\<forall>verify tok. orElse cookieToken bodyToken = Some tok \<longrightarrow> tok \<noteq> [] \<longrightarrow> jti \<noteq> [] \<longrightarrow>
             verify tok = Some \<lparr>p_sub = JStr sub, p_tv = JNum tv, p_jti = Some jti\<rparr> \<longrightarrow>
             refreshRoute verify signAccess signRefresh newId now lifetime cookieToken bodyToken s
               = (Inl TokenVersionMismatch, s)) \<and>
         statusOfError TokenVersionMismatch = 401"
proof -
  have r: "refresh newId now lifetime jti sub tv s = (Inl TokenVersionMismatch, s)"
    using assms by (simp add: refresh_def)
  then show ?thesis by (simp add: refreshRoute_def statusOfError_def)
qed

theorem refresh_version_mismatch_witness:
  "refresh ''t9'' 500 604800 ''t2'' ''u2'' 2 exampleStore = (Inl TokenVersionMismatch, exampleStore) \<and>
   refreshRoute (exampleVerify 500) exampleSign exampleSign ''t9'' 500 604800 None
       (Some ''stale1'') exampleStore = (Inl TokenVersionMismatch, exampleStore)"
proof -
  have row: "refreshToken_findUnique ''t2'' exampleStore
      = Some \<lparr>rt_id = ''t2'', rt_userId = ''u2'', rt_expiresAt = 2000, revoked = False\<rparr>"
    by (simp add: refreshToken_findUnique_def exampleStore_def)
  have u: "user_findUnique
       (rt_userId \<lparr>rt_id = ''t2'', rt_userId = ''u2'', rt_expiresAt = 2000, revoked = False\<rparr>)
       exampleStore =
      Some \<lparr>user_id = ''u2'', user_email = ''clerk@example.com'', user_password = ''h2'',
          user_name = Some ''Clerk One'', isActive = True, tokenVersion = 3,
          user_roleId = ''r3''\<rparr>"
    by (simp add: user_findUnique_def exampleStore_def)
  have v: "exampleVerify 500 ''stale1''
      = Some \<lparr>p_sub = JStr ''u2'', p_tv = JNum 2, p_jti = Some ''t2''\<rparr>"
    by (simp add: auth_defs)
  have o: "orElse None (Some ''stale1'') = Some ''stale1''"
    by (simp add: orElse_def truthy_def)
  from refresh_version_mismatch[OF row _ u, of 2 "''t9''" 500 604800 "''u2''" None
      "Some ''stale1''" exampleSign exampleSign] v o
  show ?thesis by simp
qed

text \<open>
  C4. \<open>logoutAll\<close> with an initiating refresh token whose row is already revoked fails
  with Unauthorized and leaves the store as it was (every failure does). On success the
  resulting store differs from the old one in exactly two ways, applied together in one
  transaction: every row of the user that was not revoked is now revoked (so that all
  the user's rows are revoked, and no other row changes), and the user's tokenVersion is
  one higher.
\<close>

theorem logoutAll_contract:
  "(\<forall>row. refreshToken_findUnique tid s = Some row \<longrightarrow> revoked row \<longrightarrow>
        logoutAll uid tid tv s = (Inl (UnauthorizedError ''Unauthorized''), s)) \<and>
   (\<forall>e s'. logoutAll uid tid tv s = (Inl e, s') \<longrightarrow> s' = s) \<and>
   (\<forall>v s'. logoutAll uid tid tv s = (Inr v, s') \<longrightarrow>
        refreshTokens s' =
          map (\<lambda>t. if rt_userId t = uid \<and> \<not> revoked t then t\<lparr>revoked := True\<rparr> else t)
              (refreshTokens s) \<and>
        (\<forall>t\<in>set (refreshTokens s'). rt_userId t = uid \<longrightarrow> revoked t) \<and>
        users s' =
          map (\<lambda>x. if user_id x = uid then x\<lparr>tokenVersion := tokenVersion x + 1\<rparr> else x)
              (users s) \<and>
        (\<exists>u. user_findUnique uid s = Some u \<and>
             user_findUnique uid s' = Some (u\<lparr>tokenVersion := tokenVersion u + 1\<rparr>)) \<and>
        roles s' = roles s \<and> features s' = features s \<and> roleFeatures s' = roleFeatures s)"
proof (intro conjI allI impI)
  fix row assume "refreshToken_findUnique tid s = Some row" "revoked row"
  then show "logoutAll uid tid tv s = (Inl (UnauthorizedError ''Unauthorized''), s)"
    by (simp add: logoutAll_def)
next
  fix e s' assume "logoutAll uid tid tv s = (Inl e, s')"
  then show "s' = s" by (rule logoutAll_Inl)
next
  fix v s' assume run: "logoutAll uid tid tv s = (Inr v, s')"
  note st = logoutAll_Inr[OF run]
  from st(1) show "refreshTokens s' =
          map (\<lambda>t. if rt_userId t = uid \<and> \<not> revoked t then t\<lparr>revoked := True\<rparr> else t)
              (refreshTokens s)"
    by (simp add: incrementTokenVersion_def revokeAllOfUser_def)
  then show "\<forall>t\<in>set (refreshTokens s'). rt_userId t = uid \<longrightarrow> revoked t"
    by (auto simp only: intro: revokeAll_all_revoked)
  from st(1) show "users s' =
          map (\<lambda>x. if user_id x = uid then x\<lparr>tokenVersion := tokenVersion x + 1\<rparr> else x)
              (users s)"
    by (simp add: incrementTokenVersion_def revokeAllOfUser_def)
  from st(2) obtain u where u: "user_findUnique uid s = Some u" by blast
  then have "user_findUnique uid (revokeAllOfUser uid s) = Some u"
    by (simp add: user_findUnique_def revokeAllOfUser_def)
  from user_after_increment[OF this] st(1) u
  show "\<exists>u. user_findUnique uid s = Some u \<and>
             user_findUnique uid s' = Some (u\<lparr>tokenVersion := tokenVersion u + 1\<rparr>)"
    by simp
  from st(1) show "roles s' = roles s" "features s' = features s"
    "roleFeatures s' = roleFeatures s"
    by (simp_all add: incrementTokenVersion_def revokeAllOfUser_def)
qed



theorem logoutAll_contract_witness:
  "logoutAll ''u2'' ''t0'' 3 exampleStore = (Inl (UnauthorizedError ''Unauthorized''), exampleStore) \<and>
   fst (logoutAll ''u2'' ''t1'' 3 exampleStore) = Inr () \<and>
   map (\<lambda>t. (rt_id t, revoked t)) (refreshTokens (snd (logoutAll ''u2'' ''t1'' 3 exampleStore)))
     = [(''t0'', True), (''t1'', True), (''t2'', True), (''t3'', False)] \<and>
   map (\<lambda>u. (user_id u, tokenVersion u)) (users (snd (logoutAll ''u2'' ''t1'' 3 exampleStore)))
     = [(''u1'', 0), (''u2'', 4), (''u3'', 5)]"
proof -
  have row: "refreshToken_findUnique ''t0'' exampleStore
      = Some \<lparr>rt_id = ''t0'', rt_userId = ''u2'', rt_expiresAt = 1000, revoked = True\<rparr>"
    by (simp add: refreshToken_findUnique_def exampleStore_def)
  have ok: "fst (logoutAll ''u2'' ''t1'' 3 exampleStore) = Inr ()"
    by (simp add: eval_defs auth_defs)
  then have run: "logoutAll ''u2'' ''t1'' 3 exampleStore
       = (Inr (), snd (logoutAll ''u2'' ''t1'' 3 exampleStore))"
    by (simp add: prod_eq_iff)
  from logoutAll_contract[of "''t0''" exampleStore "''u2''" 3] row
  have a: "logoutAll ''u2'' ''t0'' 3 exampleStore
      = (Inl (UnauthorizedError ''Unauthorized''), exampleStore)"
    by simp
  note c = logoutAll_contract[of "''t1''" exampleStore "''u2''" 3,
      THEN conjunct2, THEN conjunct2, THEN spec, THEN spec, THEN mp, OF run]
  from c have b: "refreshTokens (snd (logoutAll ''u2'' ''t1'' 3 exampleStore)) =
          map (\<lambda>t. if rt_userId t = ''u2'' \<and> \<not> revoked t then t\<lparr>revoked := True\<rparr> else t)
              (refreshTokens exampleStore)"
    by (rule conjunct1)
  from c have d: "users (snd (logoutAll ''u2'' ''t1'' 3 exampleStore)) =
          map (\<lambda>x. if user_id x = ''u2'' then x\<lparr>tokenVersion := tokenVersion x + 1\<rparr> else x)
              (users exampleStore)"
    by (rule conjunct2[THEN conjunct2, THEN conjunct1])
  have b': "map (\<lambda>t. (rt_id t, revoked t)) (refreshTokens (snd (logoutAll ''u2'' ''t1'' 3 exampleStore)))
     = [(''t0'', True), (''t1'', True), (''t2'', True), (''t3'', False)]"
    unfolding b by (simp add: exampleStore_def)
  have d': "map (\<lambda>u. (user_id u, tokenVersion u)) (users (snd (logoutAll ''u2'' ''t1'' 3 exampleStore)))
     = [(''u1'', 0), (''u2'', 4), (''u3'', 5)]"
    unfolding d by (simp add: exampleStore_def)
  from a ok b' d' show ?thesis by (intro conjI)
qed

text \<open>
  C8 (as amended). The logout route reports success for every request whose body passes
  the schema of the route, that is a JSON body whose \<^verbatim>\<open>refresh_token\<close> is a string or
  is absent: whatever token is presented in the cookie or the body (valid, already
  revoked, expired, badly signed, malformed, empty, unknown to the database, or none at
  all), whatever the store, and however often the call is repeated, the response is the
  200 success response that clears the cookie; and when the presented token verifies and
  the row named by its \<^verbatim>\<open>jti\<close> exists, that row is revoked afterwards. A request whose
  body fails the schema (\<^verbatim>\<open>refresh_token: null\<close>, or a body that was not parsed as
  JSON) is answered with 400 \<^verbatim>\<open>Validation Error\<close> before the handler runs, whatever
  the cookie holds, and the store is left as it was.
\<close>

theorem logout_succeeds_on_valid_body:
  "(body = JsonBody FieldAbsent \<or> body = JsonBody (FieldString t) \<longrightarrow>
      fst (logoutRoute verify cookieToken body s) =
        Inr ((successResponse None ''Logged out successfully'' 200)\<lparr>resp_cookie := Some []\<rparr>) \<and>
      (\<forall>n. routeStatus (logoutRoute verify cookieToken body
             (((\<lambda>x. snd (logoutRoute verify cookieToken body x)) ^^ n) s)) = 200) \<and>
      (\<forall>tok p jti sub row.
         orElse cookieToken (body_refresh_token body) = Some tok \<longrightarrow> tok \<noteq> [] \<longrightarrow>
         verify tok = Some p \<longrightarrow> p_jti p = Some jti \<longrightarrow> jti \<noteq> [] \<longrightarrow> p_sub p = JStr sub \<longrightarrow>
         refreshToken_findUnique jti s = Some row \<longrightarrow>
           refreshToken_findUnique jti (snd (logoutRoute verify cookieToken body s))
             = Some (row\<lparr>revoked := True\<rparr>))) \<and>
   (body = Unparsed \<or> body = JsonBody FieldNull \<longrightarrow>
      logoutRoute verify cookieToken body s
        = (Inr (errorResponse 400 ''Validation Error''), s) \<and>
      routeStatus (logoutRoute verify cookieToken body s) = 400)"
proof (intro conjI allI impI)
  assume "body = JsonBody FieldAbsent \<or> body = JsonBody (FieldString t)"
  then have ok: "TokenSchema body" by (auto simp: TokenSchema_iff)
  show "fst (logoutRoute verify cookieToken body s) =
     Inr ((successResponse None ''Logged out successfully'' 200)\<lparr>resp_cookie := Some []\<rparr>)"
    by (rule logoutRoute_result[OF ok])
  show "routeStatus (logoutRoute verify cookieToken body
          (((\<lambda>x. snd (logoutRoute verify cookieToken body x)) ^^ n) s)) = 200" for n
    by (simp add: routeStatus_def logoutRoute_result[OF ok] successResponse_def)
  fix tok p jti sub row
  assume "orElse cookieToken (body_refresh_token body) = Some tok" "tok \<noteq> []"
    "verify tok = Some p" "p_jti p = Some jti" "jti \<noteq> []" "p_sub p = JStr sub"
    "refreshToken_findUnique jti s = Some row"
  with ok show "refreshToken_findUnique jti (snd (logoutRoute verify cookieToken body s))
          = Some (row\<lparr>revoked := True\<rparr>)"
    by (simp add: logoutRoute_def logout_def token_after_revoke)
next
  assume "body = Unparsed \<or> body = JsonBody FieldNull"
  then have bad: "\<not> TokenSchema body" by (auto simp: TokenSchema_iff)
  show "logoutRoute verify cookieToken body s
        = (Inr (errorResponse 400 ''Validation Error''), s)"
    by (rule logoutRoute_invalid_body[OF bad])
  then show "routeStatus (logoutRoute verify cookieToken body s) = 400"
    by (simp add: routeStatus_def errorResponse_def)
qed

theorem logout_succeeds_on_valid_body_witness:
  "routeStatus (logoutRoute (exampleVerify 500) None (JsonBody (FieldString ''tok1''))
      exampleStore) = 200 \<and>
   map_option revoked (refreshToken_findUnique ''t1''
      (snd (logoutRoute (exampleVerify 500) None (JsonBody (FieldString ''tok1''))
         exampleStore))) = Some True \<and>
   routeStatus (logoutRoute (exampleVerify 500) None (JsonBody (FieldString ''tok1''))
      (snd (logoutRoute (exampleVerify 500) None (JsonBody (FieldString ''tok1''))
         exampleStore))) = 200 \<and>
   routeStatus (logoutRoute (exampleVerify 500) None (JsonBody (FieldString ''tok0''))
      exampleStore) = 200 \<and>
   routeStatus (logoutRoute (exampleVerify 5000) None (JsonBody (FieldString ''tok1''))
      exampleStore) = 200 \<and>
   routeStatus (logoutRoute (exampleVerify 500) None (JsonBody (FieldString ''forged''))
      exampleStore) = 200 \<and>
   routeStatus (logoutRoute (exampleVerify 500) None (JsonBody (FieldString ''not-a-jwt''))
      exampleStore) = 200 \<and>
   routeStatus (logoutRoute (exampleVerify 500) None (JsonBody (FieldString []))
      exampleStore) = 200 \<and>
   routeStatus (logoutRoute (exampleVerify 500) None (JsonBody FieldAbsent) exampleStore)
     = 200 \<and>
   routeStatus (logoutRoute (exampleVerify 500) (Some ''tok1'') (JsonBody FieldAbsent)
      exampleStore) = 200 \<and>
   routeStatus (logoutRoute (exampleVerify 500) (Some ''tok1'') (JsonBody FieldNull)
      exampleStore) = 400 \<and>
   snd (logoutRoute (exampleVerify 500) (Some ''tok1'') (JsonBody FieldNull) exampleStore)
     = exampleStore"
proof -
  have o: "orElse None (body_refresh_token (JsonBody (FieldString ''tok1''))) = Some ''tok1''"
    by (simp add: orElse_def truthy_def body_refresh_token_def)
  have v: "exampleVerify 500 ''tok1''
      = Some \<lparr>p_sub = JStr ''u2'', p_tv = JNum 3, p_jti = Some ''t1''\<rparr>"
    by (simp add: auth_defs)
  have row: "refreshToken_findUnique ''t1'' exampleStore
      = Some \<lparr>rt_id = ''t1'', rt_userId = ''u2'', rt_expiresAt = 2000, revoked = False\<rparr>"
    by (simp add: refreshToken_findUnique_def exampleStore_def)
  have a: "routeStatus (logoutRoute vf c (JsonBody (FieldString b)) exampleStore) = 200"
    for vf c b
    using logout_succeeds_on_valid_body[where s = exampleStore
        and body = "JsonBody (FieldString b)" and t = b and verify = vf and cookieToken = c,
        THEN conjunct1, THEN mp, THEN conjunct2, THEN conjunct1, THEN spec, of 0]
    by simp
  have a': "routeStatus (logoutRoute vf c (JsonBody FieldAbsent) exampleStore) = 200"
    for vf c
    using logout_succeeds_on_valid_body[where s = exampleStore
        and body = "JsonBody FieldAbsent" and t = "[]" and verify = vf and cookieToken = c,
        THEN conjunct1, THEN mp, THEN conjunct2, THEN conjunct1, THEN spec, of 0]
    by simp
  have b: "routeStatus (logoutRoute (exampleVerify 500) None (JsonBody (FieldString ''tok1''))
      (snd (logoutRoute (exampleVerify 500) None (JsonBody (FieldString ''tok1''))
         exampleStore))) = 200"
    using logout_succeeds_on_valid_body[where s = exampleStore
        and body = "JsonBody (FieldString ''tok1'')" and t = "''tok1''"
        and verify = "exampleVerify 500" and cookieToken = None,
        THEN conjunct1, THEN mp, THEN conjunct2, THEN conjunct1, THEN spec, of 1]
    by simp
  have c: "refreshToken_findUnique ''t1''
      (snd (logoutRoute (exampleVerify 500) None (JsonBody (FieldString ''tok1''))
         exampleStore))
       = Some (\<lparr>rt_id = ''t1'', rt_userId = ''u2'', rt_expiresAt = 2000, revoked = False\<rparr>
                \<lparr>revoked := True\<rparr>)"
    using logout_succeeds_on_valid_body[where s = exampleStore
        and body = "JsonBody (FieldString ''tok1'')" and t = "''tok1''"
        and verify = "exampleVerify 500" and cookieToken = None,
        THEN conjunct1, THEN mp, THEN conjunct2, THEN conjunct2] o v row
    by simp
  have d: "logoutRoute (exampleVerify 500) (Some ''tok1'') (JsonBody FieldNull) exampleStore
      = (Inr (errorResponse 400 ''Validation Error''), exampleStore) \<and>
     routeStatus (logoutRoute (exampleVerify 500) (Some ''tok1'') (JsonBody FieldNull)
       exampleStore) = 400"
    using logout_succeeds_on_valid_body[where s = exampleStore
        and body = "JsonBody FieldNull" and t = "[]" and verify = "exampleVerify 500"
        and cookieToken = "Some ''tok1''", THEN conjunct2]
    by blast
  have d1: "snd (logoutRoute (exampleVerify 500) (Some ''tok1'') (JsonBody FieldNull)
      exampleStore) = exampleStore"
    using d by simp
  have d2: "routeStatus (logoutRoute (exampleVerify 500) (Some ''tok1'') (JsonBody FieldNull)
      exampleStore) = 400"
    using d by blast
  show ?thesis
    by (simp add: a a' b c d1 d2)
qed

text \<open>
  C8 as stated fails: the logout route does return an error for some inputs. A body
  with \<^verbatim>\<open>refresh_token: null\<close> is answered with 400, and so is a body sent without a
  \<^verbatim>\<open>content-type\<close> header, which the route cannot read even when it carries a valid
  token; in both cases nothing is revoked.
\<close>

theorem logout_invalid_body_counterexample:
  "routeStatus (logoutRoute (exampleVerify 500) None (JsonBody FieldNull) exampleStore) = 400 \<and>
   routeStatus (logoutRoute (exampleVerify 500) None Unparsed exampleStore) = 400 \<and>
   resp_error (projr (fst (logoutRoute (exampleVerify 500) None (JsonBody FieldNull)
      exampleStore))) \<and>
   snd (logoutRoute (exampleVerify 500) None (JsonBody FieldNull) exampleStore) = exampleStore \<and>
   snd (logoutRoute (exampleVerify 500) None Unparsed exampleStore) = exampleStore"
  by (simp add: auth_defs routeStatus_def errorResponse_def)





end
